theory Spec2Isabelle
  imports Complex_Main "HOL-Library.Word" "HOL-Library.Sublist"
begin

section \<open>The Tongyi chat provider (contrib/tongyi/chat.go)\<close>

text \<open>
  A shallow embedding of \<^verbatim>\<open>contrib/tongyi/chat.go\<close>: the translation of a vendor-neutral
  request into chat-completion parameters, the tool invoker, the response assembler, the
  recursive non-streaming controller \<^verbatim>\<open>New\<close> and the streaming pipeline \<^verbatim>\<open>NewStreaming\<close>.

  Go returns \<^verbatim>\<open>(value, error)\<close>. Where the code returns \<^verbatim>\<open>nil\<close> beside the error the
  model uses a sum (\<open>Inl\<close> the error); where the value beside the error is observable
  (\<^verbatim>\<open>toolCall\<close>, a tool handler) it is a pair of the string and an optional error.
  A pointer argument that the callee mutates (\<^verbatim>\<open>params\<close>) is passed in and returned.
\<close>

subsection \<open>Errors\<close>

text \<open>
  The five sentinel errors of the package, and \<open>ErrorsNew\<close> for every other error value
  (the anonymous \<^verbatim>\<open>errors.New(...)\<close> of the translator, and the errors of handlers, of the
  wire client and of the decoders), identified by its message.
\<close>

datatype error =
    ErrEmptyResponse
  | ErrToolNotFound
  | ErrTooManyIterations
  | ErrInvalidAPIKey
  | ErrInvalidModel
  | ErrorsNew string

subsection \<open>The vendor-neutral model (package blades)\<close>

type_synonym byte = "8 word"

datatype Role = RoleUser | RoleSystem | RoleAssistant | RoleTool

datatype Status = StatusCompleted | StatusIncomplete

text \<open>\<open>FilePart name uri mime\<close> and \<open>DataPart name bytes mime\<close>.\<close>

datatype Part =
    TextPart string
  | FilePart string string string
  | DataPart string "byte list" string

record ToolCall =
  tc_ID :: string
  tc_Name :: string
  tc_Arguments :: string
  tc_Result :: string

record Message =
  msg_Role :: Role
  msg_Parts :: "Part list"
  msg_Status :: Status
  msg_Metadata :: "string \<rightharpoonup> string"
  msg_ToolCalls :: "ToolCall list"

text \<open>
  A tool. The handler is a Go closure \<^verbatim>\<open>func(ctx, args) (string, error)\<close>; it is modelled
  as a function of the argument string, returning the string and the optional error.
  \<open>'sch\<close> is the type of JSON schemas (\<^verbatim>\<open>*jsonschema.Schema\<close>, \<open>None\<close> for \<^verbatim>\<open>nil\<close>).
\<close>

record 'sch Tool =
  tool_Name :: string
  tool_Description :: string
  tool_InputSchema :: "'sch option"
  tool_Handle :: "string \<Rightarrow> string \<times> error option"

record 'sch ModelRequest =
  req_Model :: string
  req_Messages :: "Message list"
  req_Tools :: "'sch Tool list"

text \<open>
  The sampling options are \<^verbatim>\<open>float64\<close> in Go and \<open>real\<close> here: the code only compares
  them with zero and copies them.
\<close>

record ModelOptions =
  opt_Temperature :: real
  opt_TopP :: real
  opt_MaxOutputTokens :: int
  opt_ReasoningEffort :: string
  opt_MaxIterations :: int

record ModelResponse =
  res_Messages :: "Message list"

subsection \<open>The wire format (package openai-go)\<close>

text \<open>
  \<open>ImageContentPart url\<close>, \<open>InputAudioContentPart data format\<close>,
  \<open>FileContentPart fileData filename\<close>.
\<close>

datatype ContentPart =
    TextContentPart string
  | ImageContentPart string
  | InputAudioContentPart string string
  | FileContentPart string string

text \<open>A tool call of a completion: \<^verbatim>\<open>call.ID\<close>, \<^verbatim>\<open>call.Function.Name\<close>, \<^verbatim>\<open>call.Function.Arguments\<close>.\<close>

record WireToolCall =
  call_ID :: string
  call_Name :: string
  call_Arguments :: string

record ChatCompletionMessage =
  cm_Content :: string
  cm_AudioData :: string
  cm_Refusal :: string
  cm_ToolCalls :: "WireToolCall list"

record ChatCompletionChoice =
  choice_Message :: ChatCompletionMessage
  choice_FinishReason :: string

text \<open>
  The entries of \<^verbatim>\<open>params.Messages\<close>. \<open>MessageToParam m\<close> stands for the value of
  \<^verbatim>\<open>m.ToParam()\<close>, the assistant's own announcement of its tool calls, kept symbolic;
  \<open>ToolMessage result id\<close> is \<^verbatim>\<open>openai.ToolMessage(result, id)\<close>.
\<close>

datatype MessageParam =
    UserMessage "ContentPart list"
  | AssistantMessage string
  | SystemMessage "string list"
  | MessageToParam ChatCompletionMessage
  | ToolMessage string string

record 'w FunctionDefinitionParam =
  fn_Name :: string
  fn_Description :: "string option"
  fn_Parameters :: "'w option"

record 'w ChatCompletionNewParams =
  par_Tools :: "'w FunctionDefinitionParam list"
  par_Model :: string
  par_Messages :: "MessageParam list"
  par_TopP :: "real option"
  par_Temperature :: "real option"
  par_MaxCompletionTokens :: "int option"
  par_ReasoningEffort :: string

subsection \<open>Functions of other packages\<close>

text \<open>
  The functions the file calls but does not define are parameters of the model:
  \<^verbatim>\<open>MIMEType.Type\<close> and \<^verbatim>\<open>MIMEType.Format\<close> (package blades),
  \<^verbatim>\<open>base64.StdEncoding.EncodeToString\<close> and \<^verbatim>\<open>DecodeString\<close>, and
  \<^verbatim>\<open>json.Marshal\<close> and \<^verbatim>\<open>json.Unmarshal\<close> on a tool's input schema.
\<close>

record ('sch, 'w) External =
  mimeType :: "string \<Rightarrow> string"
  mimeFormat :: "string \<Rightarrow> string"
  base64Encode :: "byte list \<Rightarrow> string"
  base64Decode :: "string \<Rightarrow> error + byte list"
  jsonMarshal :: "'sch \<Rightarrow> error + string"
  jsonUnmarshal :: "string \<Rightarrow> error + 'w option"

subsection \<open>Model names\<close>

definition QwenTurbo :: string where "QwenTurbo = ''qwen-turbo''"
definition QwenPlus :: string where "QwenPlus = ''qwen-plus''"
definition QwenMax :: string where "QwenMax = ''qwen-max''"
definition QwenLong :: string where "QwenLong = ''qwen-long''"
definition QwenVL :: string where "QwenVL = ''qwen-vl-plus''"
definition QwenAudio :: string where "QwenAudio = ''qwen-audio-turbo''"

definition validModels :: "string \<rightharpoonup> bool" where
  "validModels =
     [QwenTurbo \<mapsto> True, QwenPlus \<mapsto> True, QwenMax \<mapsto> True,
      QwenLong \<mapsto> True, QwenVL \<mapsto> True, QwenAudio \<mapsto> True]"

text \<open>Indexing a Go map at a missing key gives the zero value, \<^verbatim>\<open>false\<close>.\<close>

definition isValidModel :: "string \<Rightarrow> bool" where
  "isValidModel model = (case validModels model of Some b \<Rightarrow> b | None \<Rightarrow> False)"

subsection \<open>Message translator\<close>

text \<open>\<^verbatim>\<open>toTextParts\<close>: the texts of the Text parts, in order; a text part param is its text.\<close>

fun textParts :: "Part list \<Rightarrow> string list" where
  "textParts [] = []"
| "textParts (TextPart text # parts) = text # textParts parts"
| "textParts (FilePart name uri mime # parts) = textParts parts"
| "textParts (DataPart name bytes mime # parts) = textParts parts"

definition toTextParts :: "Message \<Rightarrow> string list" where
  "toTextParts message = textParts (msg_Parts message)"

text \<open>
  \<^verbatim>\<open>toContentParts\<close>, one part at a time: the parts appended for one element of
  \<^verbatim>\<open>message.Parts\<close> (none for a File part of another MIME type, which is only logged).
\<close>

fun contentPart :: "('sch, 'w) External \<Rightarrow> Part \<Rightarrow> ContentPart list" where
  "contentPart ext (TextPart text) = [TextContentPart text]"
| "contentPart ext (FilePart name uri mime) =
     (if mimeType ext mime = ''image'' then [ImageContentPart uri]
      else if mimeType ext mime = ''audio'' then [InputAudioContentPart uri (mimeFormat ext mime)]
      else [])"
| "contentPart ext (DataPart name bytes mime) =
     (if mimeType ext mime = ''image''
      then [ImageContentPart (''data:'' @ mime @ '';base64,'' @ base64Encode ext bytes)]
      else if mimeType ext mime = ''audio''
      then [InputAudioContentPart (''data:;base64,'' @ base64Encode ext bytes) (mimeFormat ext mime)]
      else [FileContentPart (base64Encode ext bytes) name])"

definition toContentParts :: "('sch, 'w) External \<Rightarrow> Message \<Rightarrow> ContentPart list" where
  "toContentParts ext message = concat (map (contentPart ext) (msg_Parts message))"

subsection \<open>Tool schema translator\<close>

fun toolParams ::
  "('sch, 'w) External \<Rightarrow> 'sch Tool list \<Rightarrow> 'w FunctionDefinitionParam list
    \<Rightarrow> error + 'w FunctionDefinitionParam list" where
  "toolParams ext [] params = Inr params"
| "toolParams ext (tool # tools) params =
     (let fn = \<lparr>fn_Name = tool_Name tool, fn_Description = None, fn_Parameters = None\<rparr>;
          fn = (if tool_Description tool \<noteq> '''' then fn\<lparr>fn_Description := Some (tool_Description tool)\<rparr>
                else fn)
      in case tool_InputSchema tool of
           None \<Rightarrow> toolParams ext tools (params @ [fn])
         | Some schema \<Rightarrow>
             (case jsonMarshal ext schema of
                Inl err \<Rightarrow> Inl err
              | Inr b \<Rightarrow>
                  (case jsonUnmarshal ext b of
                     Inl err \<Rightarrow> Inl err
                   | Inr ps \<Rightarrow> toolParams ext tools (params @ [fn\<lparr>fn_Parameters := ps\<rparr>]))))"

definition toTools ::
  "('sch, 'w) External \<Rightarrow> 'sch Tool list \<Rightarrow> error + 'w FunctionDefinitionParam list" where
  "toTools ext tools = (if length tools = 0 then Inr [] else toolParams ext tools [])"

text \<open>The loop of \<^verbatim>\<open>toChatCompletionParams\<close> over \<^verbatim>\<open>req.Messages\<close>, dispatching on the role.\<close>

fun messageParams ::
  "('sch, 'w) External \<Rightarrow> Message list \<Rightarrow> MessageParam list \<Rightarrow> MessageParam list" where
  "messageParams ext [] out = out"
| "messageParams ext (msg # msgs) out =
     (case msg_Role msg of
        RoleUser \<Rightarrow> messageParams ext msgs (out @ [UserMessage (toContentParts ext msg)])
      | RoleAssistant \<Rightarrow>
          (let textParts = toTextParts msg
           in if length textParts > 0
              then messageParams ext msgs (out @ [AssistantMessage (hd textParts)])
              else messageParams ext msgs out)
      | RoleSystem \<Rightarrow> messageParams ext msgs (out @ [SystemMessage (toTextParts msg)])
      | RoleTool \<Rightarrow> messageParams ext msgs out)"

definition toChatCompletionParams ::
  "('sch, 'w) External \<Rightarrow> 'sch ModelRequest \<Rightarrow> ModelOptions \<Rightarrow> error + 'w ChatCompletionNewParams" where
  "toChatCompletionParams ext req opt =
     (if \<not> isValidModel (req_Model req) then Inl ErrInvalidModel
      else if length (req_Messages req) = 0
      then Inl (ErrorsNew ''at least one message is required'')
      else case toTools ext (req_Tools req) of
             Inl err \<Rightarrow> Inl err
           | Inr tools \<Rightarrow>
               Inr \<lparr>par_Tools = tools,
                    par_Model = req_Model req,
                    par_Messages = messageParams ext (req_Messages req) [],
                    par_TopP = (if opt_TopP opt > 0 then Some (opt_TopP opt) else None),
                    par_Temperature =
                      (if opt_Temperature opt > 0 then Some (opt_Temperature opt) else None),
                    par_MaxCompletionTokens =
                      (if opt_MaxOutputTokens opt > 0 then Some (opt_MaxOutputTokens opt) else None),
                    par_ReasoningEffort = opt_ReasoningEffort opt\<rparr>)"

subsection \<open>Tool invoker\<close>

fun toolCall :: "'sch Tool list \<Rightarrow> string \<Rightarrow> string \<Rightarrow> string \<times> error option" where
  "toolCall [] name arguments = ('''', Some ErrToolNotFound)"
| "toolCall (tool # tools) name arguments =
     (if tool_Name tool = name then tool_Handle tool arguments
      else toolCall tools name arguments)"

subsection \<open>Response assembler\<close>

text \<open>
  The loop of \<^verbatim>\<open>choiceToResponse\<close> over \<^verbatim>\<open>choice.Message.ToolCalls\<close>. It updates the output
  message and appends to \<^verbatim>\<open>params.Messages\<close> through the pointer; on an error the function
  returns at once, and what was appended so far stays in \<^verbatim>\<open>params\<close>.
\<close>

fun invokeCalls ::
  "'sch Tool list \<Rightarrow> WireToolCall list \<Rightarrow> Message \<Rightarrow> 'w ChatCompletionNewParams
    \<Rightarrow> (error + Message) \<times> 'w ChatCompletionNewParams" where
  "invokeCalls tools [] msg params = (Inr msg, params)"
| "invokeCalls tools (call # calls) msg params =
     (case toolCall tools (call_Name call) (call_Arguments call) of
        (result, Some err) \<Rightarrow> (Inl err, params)
      | (result, None) \<Rightarrow>
          invokeCalls tools calls
            (msg\<lparr>msg_Role := RoleTool,
                 msg_ToolCalls := msg_ToolCalls msg @
                   [\<lparr>tc_ID = call_ID call, tc_Name = call_Name call,
                     tc_Arguments = call_Arguments call, tc_Result = result\<rparr>]\<rparr>)
            (params\<lparr>par_Messages := par_Messages params @ [ToolMessage result (call_ID call)]\<rparr>))"

text \<open>
  The first half of the loop body: the message built from the content, the audio, the
  refusal and the finish reason of one choice. A base64 error ends the whole function.
\<close>

definition choiceMessage :: "('sch, 'w) External \<Rightarrow> ChatCompletionChoice \<Rightarrow> error + Message" where
  "choiceMessage ext choice =
     (let msg = \<lparr>msg_Role = RoleAssistant, msg_Parts = [], msg_Status = StatusCompleted,
                 msg_Metadata = Map.empty, msg_ToolCalls = []\<rparr>;
          msg = (if cm_Content (choice_Message choice) \<noteq> ''''
                 then msg\<lparr>msg_Parts := msg_Parts msg @ [TextPart (cm_Content (choice_Message choice))]\<rparr>
                 else msg)
      in case (if cm_AudioData (choice_Message choice) \<noteq> ''''
               then (case base64Decode ext (cm_AudioData (choice_Message choice)) of
                       Inl err \<Rightarrow> Inl err
                     | Inr bytes \<Rightarrow> Inr (msg\<lparr>msg_Parts := msg_Parts msg @ [DataPart '''' bytes '''']\<rparr>))
               else Inr msg) of
           Inl err \<Rightarrow> Inl err
         | Inr msg \<Rightarrow>
             (let msg = (if cm_Refusal (choice_Message choice) \<noteq> ''''
                         then msg\<lparr>msg_Metadata :=
                                (msg_Metadata msg)(''refusal'' \<mapsto> cm_Refusal (choice_Message choice))\<rparr>
                         else msg);
                  msg = (if choice_FinishReason choice \<noteq> ''''
                         then msg\<lparr>msg_Metadata :=
                                (msg_Metadata msg)(''finish_reason'' \<mapsto> choice_FinishReason choice)\<rparr>
                         else msg)
              in Inr msg))"

fun assembleChoices ::
  "('sch, 'w) External \<Rightarrow> 'sch Tool list \<Rightarrow> ChatCompletionChoice list \<Rightarrow> ModelResponse
    \<Rightarrow> 'w ChatCompletionNewParams \<Rightarrow> (error + ModelResponse) \<times> 'w ChatCompletionNewParams" where
  "assembleChoices ext tools [] res params = (Inr res, params)"
| "assembleChoices ext tools (choice # choices) res params =
     (case choiceMessage ext choice of
        Inl err \<Rightarrow> (Inl err, params)
      | Inr msg \<Rightarrow>
          (let params = (if length (cm_ToolCalls (choice_Message choice)) > 0
                         then params\<lparr>par_Messages :=
                                par_Messages params @ [MessageToParam (choice_Message choice)]\<rparr>
                         else params)
           in case invokeCalls tools (cm_ToolCalls (choice_Message choice)) msg params of
                (Inl err, params) \<Rightarrow> (Inl err, params)
              | (Inr msg, params) \<Rightarrow>
                  assembleChoices ext tools choices
                    (res\<lparr>res_Messages := res_Messages res @ [msg]\<rparr>) params))"

text \<open>
  \<^verbatim>\<open>choiceToResponse\<close>: the response (or the error), and \<^verbatim>\<open>*params\<close> as the call leaves it.
\<close>

definition choiceToResponse ::
  "('sch, 'w) External \<Rightarrow> 'w ChatCompletionNewParams \<Rightarrow> 'sch Tool list \<Rightarrow> ChatCompletionChoice list
    \<Rightarrow> (error + ModelResponse) \<times> 'w ChatCompletionNewParams" where
  "choiceToResponse ext params tools choices =
     assembleChoices ext tools choices \<lparr>res_Messages = []\<rparr> params"

text \<open>
  \<^verbatim>\<open>chunkChoiceToResponse\<close>: the partial message of one streamed choice. Tool-call deltas are
  recorded without a result and nothing is invoked; the function never fails.
\<close>

record ChunkDelta =
  delta_Content :: string
  delta_Refusal :: string
  delta_ToolCalls :: "WireToolCall list"

record ChatCompletionChunkChoice =
  cc_Delta :: ChunkDelta
  cc_FinishReason :: string

record ChatCompletionChunk =
  chunk_Choices :: "ChatCompletionChunkChoice list"

fun deltaCalls :: "WireToolCall list \<Rightarrow> Message \<Rightarrow> Message" where
  "deltaCalls [] msg = msg"
| "deltaCalls (call # calls) msg =
     deltaCalls calls
       (msg\<lparr>msg_Role := RoleTool,
            msg_ToolCalls := msg_ToolCalls msg @
              [\<lparr>tc_ID = call_ID call, tc_Name = call_Name call,
                tc_Arguments = call_Arguments call, tc_Result = ''''\<rparr>]\<rparr>)"

definition chunkMessage :: "ChatCompletionChunkChoice \<Rightarrow> Message" where
  "chunkMessage choice =
     (let msg = \<lparr>msg_Role = RoleAssistant, msg_Parts = [], msg_Status = StatusIncomplete,
                 msg_Metadata = Map.empty, msg_ToolCalls = []\<rparr>;
          msg = (if delta_Content (cc_Delta choice) \<noteq> ''''
                 then msg\<lparr>msg_Parts := msg_Parts msg @ [TextPart (delta_Content (cc_Delta choice))]\<rparr>
                 else msg);
          msg = (if delta_Refusal (cc_Delta choice) \<noteq> ''''
                 then msg\<lparr>msg_Metadata :=
                        (msg_Metadata msg)(''refusal'' \<mapsto> delta_Refusal (cc_Delta choice))\<rparr>
                 else msg);
          msg = (if cc_FinishReason choice \<noteq> ''''
                 then msg\<lparr>msg_Metadata :=
                        (msg_Metadata msg)(''finish_reason'' \<mapsto> cc_FinishReason choice)\<rparr>
                 else msg)
      in deltaCalls (delta_ToolCalls (cc_Delta choice)) msg)"

definition chunkChoiceToResponse ::
  "'sch Tool list \<Rightarrow> ChatCompletionChunkChoice list \<Rightarrow> error + ModelResponse" where
  "chunkChoiceToResponse tools choices = Inr \<lparr>res_Messages = map chunkMessage choices\<rparr>"

subsection \<open>The wire client\<close>

text \<open>
  The vendor behind \<^verbatim>\<open>p.client\<close> is a collaborator: a function of its own state \<open>'c\<close> and
  of the submitted parameters. \<open>wire_sent\<close> logs every request handed to the client, in
  order, so that the number of request cycles can be counted.
\<close>

record ('c, 'w) Wire =
  wire_state :: 'c
  wire_sent :: "'w ChatCompletionNewParams list"

type_synonym ('c, 'w) Client =
  "'c \<Rightarrow> 'w ChatCompletionNewParams \<Rightarrow> (error + ChatCompletionChoice list) \<times> 'c"

text \<open>\<^verbatim>\<open>p.client.Chat.Completions.New(ctx, params)\<close>: the choices of the completion, or the error.\<close>

definition CompletionsNew ::
  "('c, 'w) Client \<Rightarrow> ('c, 'w) Wire \<Rightarrow> 'w ChatCompletionNewParams
    \<Rightarrow> (error + ChatCompletionChoice list) \<times> ('c, 'w) Wire" where
  "CompletionsNew client wire params =
     (case client (wire_state wire) params of
        (r, c) \<Rightarrow> (r, \<lparr>wire_state = c, wire_sent = wire_sent wire @ [params]\<rparr>))"

text \<open>
  A wire stream is read with \<^verbatim>\<open>Next\<close> and \<^verbatim>\<open>Current\<close> until \<^verbatim>\<open>Next\<close> is false: the chunks it
  delivers, and the value of \<^verbatim>\<open>stream.Err()\<close> once it has stopped (\<open>None\<close> when the stream
  ended normally).
\<close>

type_synonym ('c, 'w) StreamClient =
  "'c \<Rightarrow> 'w ChatCompletionNewParams \<Rightarrow> (ChatCompletionChunk list \<times> error option) \<times> 'c"

definition CompletionsNewStreaming ::
  "('c, 'w) StreamClient \<Rightarrow> ('c, 'w) Wire \<Rightarrow> 'w ChatCompletionNewParams
    \<Rightarrow> (ChatCompletionChunk list \<times> error option) \<times> ('c, 'w) Wire" where
  "CompletionsNewStreaming client wire params =
     (case client (wire_state wire) params of
        (r, c) \<Rightarrow> (r, \<lparr>wire_state = c, wire_sent = wire_sent wire @ [params]\<rparr>))"

subsection \<open>Iteration controller\<close>

text \<open>
  \<^verbatim>\<open>New\<close> receives \<^verbatim>\<open>params\<close> by value, lets \<^verbatim>\<open>choiceToResponse\<close> extend it through a pointer
  and passes the extended value to the recursive call. The loop over \<^verbatim>\<open>res.Messages\<close>
  returns the recursive call at the first message with role tool and a tool call.
\<close>

function New ::
  "('sch, 'w) External \<Rightarrow> ('c, 'w) Client \<Rightarrow> ('c, 'w) Wire \<Rightarrow> 'w ChatCompletionNewParams
    \<Rightarrow> 'sch Tool list \<Rightarrow> ModelOptions \<Rightarrow> (error + ModelResponse) \<times> ('c, 'w) Wire" where
  "New ext client wire params tools opts =
     (if opt_MaxIterations opts < 1 then (Inl ErrTooManyIterations, wire)
      else case CompletionsNew client wire params of
             (Inl err, wire) \<Rightarrow> (Inl err, wire)
           | (Inr choices, wire) \<Rightarrow>
               (case choiceToResponse ext params tools choices of
                  (Inl err, params) \<Rightarrow> (Inl err, wire)
                | (Inr res, params) \<Rightarrow>
                    if list_ex (\<lambda>msg. msg_Role msg = RoleTool \<and> length (msg_ToolCalls msg) \<noteq> 0)
                         (res_Messages res)
                    then New ext client wire params tools
                           (opts\<lparr>opt_MaxIterations := opt_MaxIterations opts - 1\<rparr>)
                    else (Inr res, wire)))"
  by pat_completeness auto
termination
  by (relation "measure (\<lambda>(ext, client, wire, params, tools, opts). nat (opt_MaxIterations opts))")
     auto

text \<open>The equation of \<open>New\<close> is recursive: it is unfolded by hand, one step at a time.\<close>

declare New.simps [simp del]

text \<open>
  The options of a call are functions that update the options record; they are applied in
  order to \<^verbatim>\<open>ModelOptions{MaxIterations: 3}\<close>.
\<close>

definition defaultOptions :: ModelOptions where
  "defaultOptions =
     \<lparr>opt_Temperature = 0, opt_TopP = 0, opt_MaxOutputTokens = 0,
      opt_ReasoningEffort = '''', opt_MaxIterations = 3\<rparr>"

definition applyOptions :: "(ModelOptions \<Rightarrow> ModelOptions) list \<Rightarrow> ModelOptions" where
  "applyOptions opts = fold (\<lambda>apply opt. apply opt) opts defaultOptions"

definition Generate ::
  "('sch, 'w) External \<Rightarrow> ('c, 'w) Client \<Rightarrow> ('c, 'w) Wire \<Rightarrow> 'sch ModelRequest
    \<Rightarrow> (ModelOptions \<Rightarrow> ModelOptions) list \<Rightarrow> (error + ModelResponse) \<times> ('c, 'w) Wire" where
  "Generate ext client wire req opts =
     (let opt = applyOptions opts
      in case toChatCompletionParams ext req opt of
           Inl err \<Rightarrow> (Inl err, wire)
         | Inr params \<Rightarrow> New ext client wire params (req_Tools req) opt)"

subsection \<open>Stream pipeline\<close>

text \<open>
  Modelled from the spec: the pipe of package blades (\<^verbatim>\<open>NewStreamPipe\<close>, \<^verbatim>\<open>Go\<close>, \<^verbatim>\<open>Send\<close>,
  \<^verbatim>\<open>Next\<close>, \<^verbatim>\<open>Current\<close>) is not among the sources. Following the spec, a pipe is the sequence
  its single producer emits: the items sent, in order, and the error the background task
  returned (\<open>None\<close> when it returned \<^verbatim>\<open>nil\<close>), which ends the sequence. A consumer that loops
  over \<^verbatim>\<open>Next\<close> and \<^verbatim>\<open>Current\<close> sees every item and then the error.
\<close>

record StreamTrace =
  st_items :: "ModelResponse list"
  st_err :: "error option"

text \<open>The first loop of the background task: every chunk is translated and sent.\<close>

fun forwardChunks ::
  "'sch Tool list \<Rightarrow> ChatCompletionChunk list \<Rightarrow> ModelResponse list
    \<Rightarrow> ModelResponse list \<times> error option" where
  "forwardChunks tools [] sent = (sent, None)"
| "forwardChunks tools (chunk # chunks) sent =
     (case chunkChoiceToResponse tools (chunk_Choices chunk) of
        Inl err \<Rightarrow> (sent, Some err)
      | Inr res \<Rightarrow> forwardChunks tools chunks (sent @ [res]))"

text \<open>
  \<^verbatim>\<open>NewStreaming\<close> and the last loop of its background task, \<open>relayTools\<close>, over the messages
  of the final response. \<open>accumulate\<close> is the accumulator of openai-go: the choices of
  \<^verbatim>\<open>acc.ChatCompletion\<close> after \<^verbatim>\<open>AddChunk\<close> on every chunk. The closure shares \<^verbatim>\<open>params\<close> and
  \<^verbatim>\<open>opts\<close> with the task, and each nested call receives copies: the loop goes on with the
  decremented \<^verbatim>\<open>opts\<close> and with its own \<^verbatim>\<open>params\<close>. The value of \<^verbatim>\<open>stream.Err()\<close> is bound to
  \<open>streamErr\<close> and, as in the source, never read.
\<close>

function NewStreaming ::
  "('sch, 'w) External \<Rightarrow> ('c, 'w) StreamClient
    \<Rightarrow> (ChatCompletionChunk list \<Rightarrow> ChatCompletionChoice list)
    \<Rightarrow> ('c, 'w) Wire \<Rightarrow> 'w ChatCompletionNewParams \<Rightarrow> 'sch Tool list \<Rightarrow> ModelOptions
    \<Rightarrow> (error + StreamTrace) \<times> ('c, 'w) Wire"
and relayTools ::
  "('sch, 'w) External \<Rightarrow> ('c, 'w) StreamClient
    \<Rightarrow> (ChatCompletionChunk list \<Rightarrow> ChatCompletionChoice list)
    \<Rightarrow> ('c, 'w) Wire \<Rightarrow> 'w ChatCompletionNewParams \<Rightarrow> 'sch Tool list \<Rightarrow> ModelOptions
    \<Rightarrow> Message list \<Rightarrow> ModelResponse list \<Rightarrow> StreamTrace \<times> ('c, 'w) Wire"
where
  "NewStreaming ext client accumulate wire params tools opts =
     (if opt_MaxIterations opts < 1 then (Inl ErrTooManyIterations, wire)
      else case CompletionsNewStreaming client wire params of
             ((chunks, streamErr), wire) \<Rightarrow>
               (case forwardChunks tools chunks [] of
                  (sent, Some err) \<Rightarrow> (Inr \<lparr>st_items = sent, st_err = Some err\<rparr>, wire)
                | (sent, None) \<Rightarrow>
                    (case choiceToResponse ext params tools (accumulate chunks) of
                       (Inl err, params) \<Rightarrow> (Inr \<lparr>st_items = sent, st_err = Some err\<rparr>, wire)
                     | (Inr lastResponse, params) \<Rightarrow>
                         (case relayTools ext client accumulate wire params tools opts
                                 (res_Messages lastResponse) (sent @ [lastResponse]) of
                            (trace, wire) \<Rightarrow> (Inr trace, wire)))))"
| "relayTools ext client accumulate wire params tools opts [] sent =
     (\<lparr>st_items = sent, st_err = None\<rparr>, wire)"
| "relayTools ext client accumulate wire params tools opts (msg # msgs) sent =
     (if msg_Role msg = RoleTool \<and> length (msg_ToolCalls msg) \<noteq> 0
      then (case NewStreaming ext client accumulate wire params tools
                   (opts\<lparr>opt_MaxIterations := opt_MaxIterations opts - 1\<rparr>) of
              (Inl err, wire) \<Rightarrow> (\<lparr>st_items = sent, st_err = Some err\<rparr>, wire)
            | (Inr toolStream, wire) \<Rightarrow>
                (case st_err toolStream of
                   Some err \<Rightarrow>
                     (\<lparr>st_items = sent @ st_items toolStream, st_err = Some err\<rparr>, wire)
                 | None \<Rightarrow>
                     relayTools ext client accumulate wire params tools
                       (opts\<lparr>opt_MaxIterations := opt_MaxIterations opts - 1\<rparr>)
                       msgs (sent @ st_items toolStream)))
      else relayTools ext client accumulate wire params tools opts msgs sent)"
  by pat_completeness auto
termination
  by (relation
       "(\<lambda>x. case x of
                Inl (ext, client, accumulate, wire, params, tools, opts) \<Rightarrow>
                  2 * nat (opt_MaxIterations opts)
              | Inr (ext, client, accumulate, wire, params, tools, opts, msgs, sent) \<Rightarrow>
                  2 * nat (opt_MaxIterations opts) - 1)
        <*mlex*>
        measure (\<lambda>x. case x of
                        Inl _ \<Rightarrow> 0
                      | Inr (ext, client, accumulate, wire, params, tools, opts, msgs, sent) \<Rightarrow>
                          Suc (length msgs))")
     (auto simp: mlex_prod_def wf_mlex)

declare NewStreaming.simps [simp del]

definition NewStream ::
  "('sch, 'w) External \<Rightarrow> ('c, 'w) StreamClient
    \<Rightarrow> (ChatCompletionChunk list \<Rightarrow> ChatCompletionChoice list)
    \<Rightarrow> ('c, 'w) Wire \<Rightarrow> 'sch ModelRequest \<Rightarrow> (ModelOptions \<Rightarrow> ModelOptions) list
    \<Rightarrow> (error + StreamTrace) \<times> ('c, 'w) Wire" where
  "NewStream ext client accumulate wire req opts =
     (let opt = applyOptions opts
      in if opt_MaxIterations opt \<le> 0 then (Inl ErrTooManyIterations, wire)
         else case toChatCompletionParams ext req opt of
                Inl err \<Rightarrow> (Inl err, wire)
              | Inr params \<Rightarrow> NewStreaming ext client accumulate wire params (req_Tools req) opt)"

subsection \<open>Concrete collaborators and inputs\<close>

text \<open>
  Instances of the parameters, for evaluating the functions above at concrete inputs.

  Modelled from the spec: \<^verbatim>\<open>MIMEType.Type\<close> and \<^verbatim>\<open>MIMEType.Format\<close> belong to package blades
  and are not among the sources. The spec classifies a part by the prefix of its MIME
  type (image, audio, other) and derives the audio format from the MIME type: here the
  type is the text before the slash and the format the text after it.
\<close>

definition mimeTypeOf :: "string \<Rightarrow> string" where
  "mimeTypeOf mime = takeWhile (\<lambda>c. c \<noteq> CHR ''/'') mime"

definition mimeFormatOf :: "string \<Rightarrow> string" where
  "mimeFormatOf mime = drop 1 (dropWhile (\<lambda>c. c \<noteq> CHR ''/'') mime)"

text \<open>The standard base64 encoding with padding (RFC 4648), three bytes to four characters.\<close>

definition encodeStd :: string where
  "encodeStd = ''ABCDEFGHIJKLMNOPQRSTUVWXYZabcdefghijklmnopqrstuvwxyz0123456789+/''"

fun EncodeToString :: "byte list \<Rightarrow> string" where
  "EncodeToString [] = []"
| "EncodeToString [a] =
     (let n = unat a * 65536
      in [encodeStd ! (n div 262144), encodeStd ! (n div 4096 mod 64), CHR ''='', CHR ''=''])"
| "EncodeToString [a, b] =
     (let n = unat a * 65536 + unat b * 256
      in [encodeStd ! (n div 262144), encodeStd ! (n div 4096 mod 64),
          encodeStd ! (n div 64 mod 64), CHR ''=''])"
| "EncodeToString (a # b # c # rest) =
     (let n = unat a * 65536 + unat b * 256 + unat c
      in [encodeStd ! (n div 262144), encodeStd ! (n div 4096 mod 64),
          encodeStd ! (n div 64 mod 64), encodeStd ! (n mod 64)] @ EncodeToString rest)"

text \<open>
  The decoder of the examples accepts exactly the output of the encoder, four characters
  at a time, and reports anything else as illegal data.
\<close>

fun decodeMap :: "string \<Rightarrow> char \<Rightarrow> nat option" where
  "decodeMap [] c = None"
| "decodeMap (a # alphabet) c =
     (if a = c then Some 0 else map_option Suc (decodeMap alphabet c))"

fun DecodeString :: "string \<Rightarrow> error + byte list" where
  "DecodeString [] = Inr []"
| "DecodeString (a # b # c # d # rest) =
     (case (decodeMap encodeStd a, decodeMap encodeStd b) of
        (Some x, Some y) \<Rightarrow>
          (if c = CHR ''='' \<and> d = CHR ''='' \<and> rest = []
           then Inr [of_nat ((x * 64 + y) div 16)]
           else case decodeMap encodeStd c of
                  None \<Rightarrow> Inl (ErrorsNew ''illegal base64 data'')
                | Some z \<Rightarrow>
                    (if d = CHR ''='' \<and> rest = []
                     then Inr [of_nat ((x * 4096 + y * 64 + z) div 1024),
                               of_nat ((x * 4096 + y * 64 + z) div 4)]
                     else case decodeMap encodeStd d of
                            None \<Rightarrow> Inl (ErrorsNew ''illegal base64 data'')
                          | Some w \<Rightarrow>
                              (case DecodeString rest of
                                 Inl err \<Rightarrow> Inl err
                               | Inr bytes \<Rightarrow>
                                   Inr ([of_nat ((x * 262144 + y * 4096 + z * 64 + w) div 65536),
                                         of_nat ((x * 262144 + y * 4096 + z * 64 + w) div 256),
                                         of_nat (x * 262144 + y * 4096 + z * 64 + w)] @ bytes))))
      | _ \<Rightarrow> Inl (ErrorsNew ''illegal base64 data''))"
| "DecodeString _ = Inl (ErrorsNew ''illegal base64 data'')"

text \<open>In the examples a schema is its JSON text, which marshalling returns unchanged.\<close>

definition stdExternal :: "(string, string) External" where
  "stdExternal =
     \<lparr>mimeType = mimeTypeOf, mimeFormat = mimeFormatOf,
      base64Encode = EncodeToString, base64Decode = DecodeString,
      jsonMarshal = Inr, jsonUnmarshal = (\<lambda>b. Inr (Some b))\<rparr>"

text \<open>The two tools of \<^verbatim>\<open>TestToolCall\<close> in \<^verbatim>\<open>chat_test.go\<close>.\<close>

definition testTool :: "string Tool" where
  "testTool =
     \<lparr>tool_Name = ''test_tool'', tool_Description = '''', tool_InputSchema = None,
      tool_Handle = (\<lambda>args. (''test result'', None))\<rparr>"

definition anotherTool :: "string Tool" where
  "anotherTool =
     \<lparr>tool_Name = ''another_tool'', tool_Description = '''', tool_InputSchema = None,
      tool_Handle = (\<lambda>args. (''another result'', None))\<rparr>"

definition testTools :: "string Tool list" where
  "testTools = [testTool, anotherTool]"

text \<open>A tool whose handler fails.\<close>

definition failingTool :: "string Tool" where
  "failingTool =
     \<lparr>tool_Name = ''failing_tool'', tool_Description = '''', tool_InputSchema = None,
      tool_Handle = (\<lambda>args. ('''', Some (ErrorsNew ''handler failed'')))\<rparr>"

text \<open>The option that sets the iteration budget.\<close>

definition MaxIterations :: "int \<Rightarrow> ModelOptions \<Rightarrow> ModelOptions" where
  "MaxIterations n opt = opt\<lparr>opt_MaxIterations := n\<rparr>"

definition userMessage :: "Part list \<Rightarrow> Message" where
  "userMessage parts =
     \<lparr>msg_Role = RoleUser, msg_Parts = parts, msg_Status = StatusCompleted,
      msg_Metadata = Map.empty, msg_ToolCalls = []\<rparr>"

text \<open>The valid request of \<^verbatim>\<open>TestToChatCompletionParams\<close>, with the test tools, and its parameters.\<close>

definition helloRequest :: "string ModelRequest" where
  "helloRequest =
     \<lparr>req_Model = QwenTurbo, req_Messages = [userMessage [TextPart ''Hello'']],
      req_Tools = testTools\<rparr>"

definition invalidModelRequest :: "string ModelRequest" where
  "invalidModelRequest = helloRequest\<lparr>req_Model := ''invalid-model''\<rparr>"

definition helloParams :: "string ChatCompletionNewParams" where
  "helloParams =
     \<lparr>par_Tools = [], par_Model = QwenTurbo,
      par_Messages = [UserMessage [TextContentPart ''Hello'']],
      par_TopP = None, par_Temperature = None, par_MaxCompletionTokens = None,
      par_ReasoningEffort = ''''\<rparr>"

text \<open>A wire on which nothing has been sent; the state of the vendor counts its replies.\<close>

definition freshWire :: "(nat, string) Wire" where
  "freshWire = \<lparr>wire_state = 0, wire_sent = []\<rparr>"

definition plainMessage :: "string \<Rightarrow> ChatCompletionMessage" where
  "plainMessage content =
     \<lparr>cm_Content = content, cm_AudioData = '''', cm_Refusal = '''', cm_ToolCalls = []\<rparr>"

definition callOf :: "string \<Rightarrow> string \<Rightarrow> WireToolCall" where
  "callOf ident name = \<lparr>call_ID = ident, call_Name = name, call_Arguments = ''{}''\<rparr>"

text \<open>A choice that asks for \<^verbatim>\<open>test_tool\<close>, and a vendor that answers every request with it.\<close>

definition toolCallChoice :: ChatCompletionChoice where
  "toolCallChoice =
     \<lparr>choice_Message = (plainMessage '''')\<lparr>cm_ToolCalls := [callOf ''call_1'' ''test_tool'']\<rparr>,
      choice_FinishReason = ''tool_calls''\<rparr>"

definition loopingClient :: "(nat, string) Client" where
  "loopingClient n params = (Inr [toolCallChoice], Suc n)"

text \<open>A vendor whose completion has no choices.\<close>

definition noChoicesClient :: "(nat, string) Client" where
  "noChoicesClient n params = (Inr [], Suc n)"

text \<open>
  A choice with three tool calls of which the last names a tool that fails.
\<close>

definition threeCallsChoice :: ChatCompletionChoice where
  "threeCallsChoice =
     \<lparr>choice_Message = (plainMessage '''')\<lparr>cm_ToolCalls :=
        [callOf ''call_1'' ''test_tool'', callOf ''call_2'' ''another_tool'',
         callOf ''call_3'' ''failing_tool'']\<rparr>,
      choice_FinishReason = ''tool_calls''\<rparr>"

text \<open>
  A wire stream that delivers one chunk with the text \<^verbatim>\<open>Hel\<close> and then breaks: \<^verbatim>\<open>Next\<close>
  becomes false and \<^verbatim>\<open>stream.Err()\<close> holds the transport error.
\<close>

definition textChunk :: "string \<Rightarrow> ChatCompletionChunk" where
  "textChunk content =
     \<lparr>chunk_Choices =
        [\<lparr>cc_Delta = \<lparr>delta_Content = content, delta_Refusal = '''', delta_ToolCalls = []\<rparr>,
          cc_FinishReason = ''''\<rparr>]\<rparr>"

definition brokenStreamClient :: "(nat, string) StreamClient" where
  "brokenStreamClient n params = (([textChunk ''Hel''], Some (ErrorsNew ''unexpected EOF'')), Suc n)"

text \<open>
  An accumulator for text streams: no choice when there was no chunk, otherwise one choice
  whose content joins the content deltas of all chunks.
\<close>

definition textAccumulator :: "ChatCompletionChunk list \<Rightarrow> ChatCompletionChoice list" where
  "textAccumulator chunks =
     (if chunks = [] then []
      else [\<lparr>choice_Message =
               plainMessage (concat (map (\<lambda>chunk. concat (map (\<lambda>c. delta_Content (cc_Delta c))
                                                      (chunk_Choices chunk))) chunks)),
             choice_FinishReason = ''''\<rparr>])"

subsection \<open>A reply that asks for tools\<close>

text \<open>
  The choices of a completion ask for tools, and the tools answer: some choice carries a
  tool call, the audio of every choice (if any) decodes, and the invoker succeeds on every
  call of every choice.
\<close>

definition dispatches :: "'sch Tool list \<Rightarrow> WireToolCall \<Rightarrow> bool" where
  "dispatches tools call = (snd (toolCall tools (call_Name call) (call_Arguments call)) = None)"

definition asksForTools ::
  "('sch, 'w) External \<Rightarrow> 'sch Tool list \<Rightarrow> ChatCompletionChoice list \<Rightarrow> bool" where
  "asksForTools ext tools choices =
     (list_ex (\<lambda>choice. cm_ToolCalls (choice_Message choice) \<noteq> []) choices
      \<and> list_all (\<lambda>choice. \<not> isl (choiceMessage ext choice)
                           \<and> list_all (dispatches tools) (cm_ToolCalls (choice_Message choice)))
           choices)"

text \<open>
  One parameter value extends another when the message list of the first is a prefix of
  the message list of the second.
\<close>

definition extends ::
  "'w ChatCompletionNewParams \<Rightarrow> 'w ChatCompletionNewParams \<Rightarrow> bool" where
  "extends params params' = prefix (par_Messages params) (par_Messages params')"

text \<open>
  An accumulator for streams that deliver a whole completion in one chunk: the choices of
  that chunk, each with its content, refusal, tool calls and finish reason. Any other
  stream is accumulated as text.
\<close>

definition deltaChoice :: "ChatCompletionChunkChoice \<Rightarrow> ChatCompletionChoice" where
  "deltaChoice choice =
     \<lparr>choice_Message =
        \<lparr>cm_Content = delta_Content (cc_Delta choice), cm_AudioData = '''',
         cm_Refusal = delta_Refusal (cc_Delta choice),
         cm_ToolCalls = delta_ToolCalls (cc_Delta choice)\<rparr>,
      choice_FinishReason = cc_FinishReason choice\<rparr>"

definition wholeChunkAccumulator :: "ChatCompletionChunk list \<Rightarrow> ChatCompletionChoice list" where
  "wholeChunkAccumulator chunks =
     (case chunks of
        [chunk] \<Rightarrow> map deltaChoice (chunk_Choices chunk)
      | _ \<Rightarrow> textAccumulator chunks)"

text \<open>
  A vendor whose first stream carries two choices with one tool call each, whose second
  stream asks for a tool once more, and whose later streams are plain text.
\<close>

definition callChunkChoice :: "WireToolCall \<Rightarrow> ChatCompletionChunkChoice" where
  "callChunkChoice call =
     \<lparr>cc_Delta = \<lparr>delta_Content = '''', delta_Refusal = '''', delta_ToolCalls = [call]\<rparr>,
      cc_FinishReason = ''tool_calls''\<rparr>"

definition forkingStreamClient :: "(nat, string) StreamClient" where
  "forkingStreamClient n params =
     ((if n = 0
       then [\<lparr>chunk_Choices = [callChunkChoice (callOf ''call_1'' ''test_tool''),
                               callChunkChoice (callOf ''call_2'' ''another_tool'')]\<rparr>]
       else if n = 1
       then [\<lparr>chunk_Choices = [callChunkChoice (callOf ''call_3'' ''test_tool'')]\<rparr>]
       else [textChunk ''done''], None), Suc n)"

text \<open>A stream client with the error of every stream removed.\<close>

definition withoutError :: "('c, 'w) StreamClient \<Rightarrow> ('c, 'w) StreamClient" where
  "withoutError client c params =
     (case client c params of ((chunks, streamErr), c') \<Rightarrow> ((chunks, None), c'))"

section \<open>Properties\<close>

subsection \<open>Model validation\<close>

lemma isValidModel_iff:
  "isValidModel model \<longleftrightarrow>
     model \<in> {''qwen-turbo'', ''qwen-plus'', ''qwen-max'', ''qwen-long'', ''qwen-vl-plus'',
               ''qwen-audio-turbo''}"
  by (simp add: isValidModel_def validModels_def QwenTurbo_def QwenPlus_def QwenMax_def
        QwenLong_def QwenVL_def QwenAudio_def)

text \<open>
  Claim C6. A request whose model identifier is not one of the six Qwen model names is
  rejected by \<^verbatim>\<open>toChatCompletionParams\<close> with \<^verbatim>\<open>ErrInvalidModel\<close>. \<^verbatim>\<open>Generate\<close> returns that error
  and \<^verbatim>\<open>NewStream\<close> returns it too (or \<^verbatim>\<open>ErrTooManyIterations\<close>, which it checks first); both
  leave the wire as it was: no request reaches the wire client.
\<close>

theorem invalid_model_rejected:
  assumes "req_Model req \<notin> {''qwen-turbo'', ''qwen-plus'', ''qwen-max'', ''qwen-long'',
                               ''qwen-vl-plus'', ''qwen-audio-turbo''}"
  shows "toChatCompletionParams ext req opt = Inl ErrInvalidModel
       \<and> Generate ext client wire req opts = (Inl ErrInvalidModel, wire)
       \<and> NewStream ext streamClient accumulate wire' req opts =
           (Inl (if opt_MaxIterations (applyOptions opts) \<le> 0 then ErrTooManyIterations
                 else ErrInvalidModel), wire')"
proof -
  from assms have invalid: "\<not> isValidModel (req_Model req)"
    by (simp only: isValidModel_iff not_False_eq_True)
  then have translate: "\<And>opt. toChatCompletionParams ext req opt = Inl ErrInvalidModel"
    by (simp add: toChatCompletionParams_def)
  show ?thesis
    by (simp add: translate Generate_def NewStream_def Let_def)
qed

theorem invalid_model_rejected_witness:
  "req_Model invalidModelRequest \<notin> {''qwen-turbo'', ''qwen-plus'', ''qwen-max'', ''qwen-long'',
                               ''qwen-vl-plus'', ''qwen-audio-turbo''}
   \<and> toChatCompletionParams stdExternal invalidModelRequest defaultOptions = Inl ErrInvalidModel
   \<and> Generate stdExternal loopingClient freshWire invalidModelRequest [] = (Inl ErrInvalidModel, freshWire)
   \<and> NewStream stdExternal brokenStreamClient textAccumulator freshWire invalidModelRequest [] = (Inl ErrInvalidModel, freshWire)"
proof -
  have h: "req_Model invalidModelRequest \<notin> {''qwen-turbo'', ''qwen-plus'', ''qwen-max'', ''qwen-long'',
                               ''qwen-vl-plus'', ''qwen-audio-turbo''}"
    by (simp add: invalidModelRequest_def)
  have d: "\<not> opt_MaxIterations (applyOptions []) \<le> 0"
    by (simp add: applyOptions_def defaultOptions_def)
  show ?thesis
    using h d invalid_model_rejected [OF h, of stdExternal defaultOptions loopingClient freshWire "[]"
        brokenStreamClient textAccumulator freshWire]
    by simp
qed

subsection \<open>Tool dispatch\<close>

lemma toolCall_first:
  "\<forall>t\<in>set pre. tool_Name t \<noteq> name \<Longrightarrow> tool_Name tool = name \<Longrightarrow>
   toolCall (pre @ tool # post) name arguments = tool_Handle tool arguments"
  by (induction pre) auto

lemma toolCall_absent:
  "\<forall>t\<in>set tools. tool_Name t \<noteq> name \<Longrightarrow> toolCall tools name arguments = ('''', Some ErrToolNotFound)"
  by (induction tools) auto

lemma toolCall_distinct:
  "distinct (map tool_Name tools) \<Longrightarrow> tool \<in> set tools \<Longrightarrow>
   toolCall tools (tool_Name tool) arguments = tool_Handle tool arguments"
  by (induction tools) (auto simp: image_iff)

text \<open>
  Claim C8. \<^verbatim>\<open>toolCall\<close> returns what the handler of the first tool with exactly the
  requested name returns, the string and the error unchanged. When the names of the tools
  are distinct, as the data model requires, that is the handler of the tool with that
  name. When no tool has the name, the result is the empty string and
  \<^verbatim>\<open>ErrToolNotFound\<close>.
\<close>

theorem toolCall_dispatch:
  "(\<forall>pre tool post. tools = pre @ tool # post \<and> (\<forall>t\<in>set pre. tool_Name t \<noteq> name)
        \<and> tool_Name tool = name
      \<longrightarrow> toolCall tools name arguments = tool_Handle tool arguments)
   \<and> (distinct (map tool_Name tools)
      \<longrightarrow> (\<forall>tool\<in>set tools. tool_Name tool = name
             \<longrightarrow> toolCall tools name arguments = tool_Handle tool arguments))
   \<and> ((\<forall>tool\<in>set tools. tool_Name tool \<noteq> name)
      \<longrightarrow> toolCall tools name arguments = ('''', Some ErrToolNotFound))"
  using toolCall_first toolCall_absent toolCall_distinct by blast

theorem toolCall_dispatch_witness:
  "distinct (map tool_Name (testTools @ [failingTool]))
   \<and> anotherTool \<in> set (testTools @ [failingTool]) \<and> tool_Name anotherTool = ''another_tool''
   \<and> toolCall (testTools @ [failingTool]) ''another_tool'' ''test args'' = (''another result'', None)
   \<and> failingTool \<in> set (testTools @ [failingTool]) \<and> tool_Name failingTool = ''failing_tool''
   \<and> toolCall (testTools @ [failingTool]) ''failing_tool'' ''test args'' = ('''', Some (ErrorsNew ''handler failed''))
   \<and> list_all (\<lambda>tool. tool_Name tool \<noteq> ''nonexistent_tool'') (testTools @ [failingTool])
   \<and> toolCall (testTools @ [failingTool]) ''nonexistent_tool'' ''test args'' = ('''', Some ErrToolNotFound)"
  using toolCall_dispatch [of "testTools @ [failingTool]" "''another_tool''" "''test args''"]
        toolCall_dispatch [of "testTools @ [failingTool]" "''failing_tool''" "''test args''"]
        toolCall_dispatch [of "testTools @ [failingTool]" "''nonexistent_tool''" "''test args''"]
  by (simp add: testTools_def testTool_def anotherTool_def failingTool_def)

subsection \<open>Response assembler\<close>

lemma invokeCalls_fails_later:
  assumes "\<forall>call\<in>set done. snd (toolCall tools (call_Name call) (call_Arguments call)) = None"
      and "snd (toolCall tools (call_Name failing) (call_Arguments failing)) = Some err"
  shows "invokeCalls tools (done @ failing # rest) msg params =
           (Inl err,
            params\<lparr>par_Messages := par_Messages params @
              map (\<lambda>call. ToolMessage (fst (toolCall tools (call_Name call) (call_Arguments call)))
                                       (call_ID call)) done\<rparr>)"
  using assms
proof (induction "done" arbitrary: msg params)
  case Nil
  then show ?case by (cases "toolCall tools (call_Name failing) (call_Arguments failing)") simp
next
  case (Cons call calls)
  then show ?case
    by (cases "toolCall tools (call_Name call) (call_Arguments call)") simp
qed

lemma assembleChoices_append:
  "assembleChoices ext tools (xs @ ys) res params =
     (case assembleChoices ext tools xs res params of
        (Inl err, params') \<Rightarrow> (Inl err, params')
      | (Inr res', params') \<Rightarrow> assembleChoices ext tools ys res' params')"
  by (induction xs arbitrary: res params) (auto simp: Let_def split: sum.splits prod.splits)

text \<open>
  Claim C10. When a choice carries tool calls and the invoker fails on one of them,
  \<^verbatim>\<open>choiceToResponse\<close> returns the error and no response, and \<^verbatim>\<open>params\<close> keeps what was
  appended before the failure: everything the earlier choices appended, the announcement
  of this choice's tool calls, and one tool-result entry for every call before the
  failing one, in order. Nothing is rolled back.
\<close>

theorem assembler_error_keeps_appended_messages:
  assumes "choiceToResponse ext params tools before = (Inr res0, params0)"
      and "choiceMessage ext choice = Inr msg"
      and "cm_ToolCalls (choice_Message choice) = done @ failing # rest"
      and "\<forall>call\<in>set done. snd (toolCall tools (call_Name call) (call_Arguments call)) = None"
      and "snd (toolCall tools (call_Name failing) (call_Arguments failing)) = Some err"
  shows "choiceToResponse ext params tools (before @ choice # after) =
           (Inl err,
            params0\<lparr>par_Messages := par_Messages params0 @
              MessageToParam (choice_Message choice) #
              map (\<lambda>call. ToolMessage (fst (toolCall tools (call_Name call) (call_Arguments call)))
                                       (call_ID call)) done\<rparr>)"
proof -
  let ?announced = "params0\<lparr>par_Messages := par_Messages params0 @ [MessageToParam (choice_Message choice)]\<rparr>"
  have calls: "invokeCalls tools (cm_ToolCalls (choice_Message choice)) msg ?announced =
      (Inl err, ?announced\<lparr>par_Messages := par_Messages ?announced @
              map (\<lambda>call. ToolMessage (fst (toolCall tools (call_Name call) (call_Arguments call)))
                                       (call_ID call)) done\<rparr>)"
    unfolding assms(3) by (rule invokeCalls_fails_later [OF assms(4) assms(5)])
  have step: "assembleChoices ext tools (choice # after) res0 params0 =
      (Inl err, ?announced\<lparr>par_Messages := par_Messages ?announced @
              map (\<lambda>call. ToolMessage (fst (toolCall tools (call_Name call) (call_Arguments call)))
                                       (call_ID call)) done\<rparr>)"
    using calls by (simp add: assms(2) assms(3))
  show ?thesis
    using assms(1) step by (simp add: choiceToResponse_def assembleChoices_append)
qed

theorem assembler_error_keeps_appended_messages_witness:
  "choiceToResponse stdExternal helloParams (testTools @ [failingTool]) [threeCallsChoice] =
     (Inl (ErrorsNew ''handler failed''),
      helloParams\<lparr>par_Messages :=
        [UserMessage [TextContentPart ''Hello''],
         MessageToParam (choice_Message threeCallsChoice),
         ToolMessage ''test result'' ''call_1'',
         ToolMessage ''another result'' ''call_2'']\<rparr>)"
proof -
  let ?tools = "testTools @ [failingTool]"
  have h1: "choiceToResponse stdExternal helloParams ?tools [] = (Inr \<lparr>res_Messages = []\<rparr>, helloParams)"
    by (simp add: choiceToResponse_def)
  have h2: "choiceMessage stdExternal threeCallsChoice =
      Inr \<lparr>msg_Role = RoleAssistant, msg_Parts = [], msg_Status = StatusCompleted,
           msg_Metadata = [''finish_reason'' \<mapsto> ''tool_calls''], msg_ToolCalls = []\<rparr>"
    by (simp add: choiceMessage_def threeCallsChoice_def plainMessage_def)
  have h3: "cm_ToolCalls (choice_Message threeCallsChoice) =
      [callOf ''call_1'' ''test_tool'', callOf ''call_2'' ''another_tool''] @
      callOf ''call_3'' ''failing_tool'' # []"
    by (simp add: threeCallsChoice_def plainMessage_def)
  have h4: "\<forall>call\<in>set [callOf ''call_1'' ''test_tool'', callOf ''call_2'' ''another_tool''].
      snd (toolCall ?tools (call_Name call) (call_Arguments call)) = None"
    by (simp add: callOf_def testTools_def testTool_def anotherTool_def failingTool_def)
  have h5: "snd (toolCall ?tools (call_Name (callOf ''call_3'' ''failing_tool''))
      (call_Arguments (callOf ''call_3'' ''failing_tool''))) = Some (ErrorsNew ''handler failed'')"
    by (simp add: callOf_def testTools_def testTool_def anotherTool_def failingTool_def)
  show ?thesis
    using assembler_error_keeps_appended_messages [OF h1 h2 h3 h4 h5, of "[]"]
    by (simp add: callOf_def testTools_def testTool_def anotherTool_def failingTool_def
          helloParams_def)
qed

lemma invokeCalls_keeps_parts:
  "invokeCalls tools calls msg params = (Inr msg', params') \<Longrightarrow> msg_Parts msg' = msg_Parts msg"
  by (induction calls arbitrary: msg params) (auto split: prod.splits option.splits)

lemma choiceToResponse_single:
  assumes "choiceToResponse ext params tools [choice] = (Inr res, params')"
  obtains msg0 msg p where "choiceMessage ext choice = Inr msg0"
    and "res_Messages res = [msg]"
    and "invokeCalls tools (cm_ToolCalls (choice_Message choice)) msg0 p = (Inr msg, params')"
  using assms
  by (auto simp: choiceToResponse_def Let_def split: sum.splits prod.splits if_splits)

text \<open>
  Claim C9. As amended: a Text part with text \<open>s\<close> translates to the wire text part with
  text \<open>s\<close>, and for every non-empty \<open>s\<close> a choice whose message content is \<open>s\<close> is
  assembled into exactly one message whose first part is the Text part \<open>s\<close>: for the
  plain choice (no audio, no tool calls) with the whole result spelled out, and for any
  choice with that content whose assembly succeeds. For the empty string the assembler
  adds no Text part: whenever a choice with empty content is assembled, the one message
  of the response has no Text part at all.
\<close>

theorem text_roundtrip:
  "toContentParts ext (userMessage [TextPart s]) = [TextContentPart s]
   \<and> (s \<noteq> '''' \<longrightarrow>
        choiceToResponse ext params tools [\<lparr>choice_Message = plainMessage s, choice_FinishReason = reason\<rparr>]
          = (Inr \<lparr>res_Messages =
                 [\<lparr>msg_Role = RoleAssistant, msg_Parts = [TextPart s], msg_Status = StatusCompleted,
                   msg_Metadata = (if reason \<noteq> '''' then [''finish_reason'' \<mapsto> reason] else Map.empty),
                   msg_ToolCalls = []\<rparr>]\<rparr>, params))
   \<and> (s \<noteq> '''' \<longrightarrow> cm_Content (choice_Message choice) = s \<longrightarrow>
        choiceToResponse ext params tools [choice] = (Inr res, params') \<longrightarrow>
        (\<exists>msg parts. res_Messages res = [msg] \<and> msg_Parts msg = TextPart s # parts))
   \<and> (cm_Content (choice_Message choice0) = '''' \<longrightarrow>
        choiceToResponse ext params tools [choice0] = (Inr res0, params0) \<longrightarrow>
        (\<exists>msg. res_Messages res0 = [msg] \<and> (\<forall>text. TextPart text \<notin> set (msg_Parts msg))))"
proof (intro conjI impI)
  show "toContentParts ext (userMessage [TextPart s]) = [TextContentPart s]"
    by (simp add: toContentParts_def userMessage_def)
next
  assume "s \<noteq> ''''"
  then show "choiceToResponse ext params tools [\<lparr>choice_Message = plainMessage s, choice_FinishReason = reason\<rparr>]
          = (Inr \<lparr>res_Messages =
                 [\<lparr>msg_Role = RoleAssistant, msg_Parts = [TextPart s], msg_Status = StatusCompleted,
                   msg_Metadata = (if reason \<noteq> '''' then [''finish_reason'' \<mapsto> reason] else Map.empty),
                   msg_ToolCalls = []\<rparr>]\<rparr>, params)"
    by (simp add: choiceToResponse_def choiceMessage_def plainMessage_def)
next
  assume s: "s \<noteq> ''''" and c: "cm_Content (choice_Message choice) = s"
    and r: "choiceToResponse ext params tools [choice] = (Inr res, params')"
  from r obtain msg0 msg p where m0: "choiceMessage ext choice = Inr msg0"
    and m: "res_Messages res = [msg]"
    and i: "invokeCalls tools (cm_ToolCalls (choice_Message choice)) msg0 p = (Inr msg, params')"
    by (rule choiceToResponse_single)
  from m0 s c obtain parts where p0: "msg_Parts msg0 = TextPart s # parts"
    by (auto simp: choiceMessage_def Let_def split: if_splits sum.splits)
  with invokeCalls_keeps_parts [OF i] m
  show "\<exists>msg parts. res_Messages res = [msg] \<and> msg_Parts msg = TextPart s # parts"
    by simp
next
  assume c: "cm_Content (choice_Message choice0) = ''''"
    and r: "choiceToResponse ext params tools [choice0] = (Inr res0, params0)"
  from r obtain msg0 msg p where m0: "choiceMessage ext choice0 = Inr msg0"
    and m: "res_Messages res0 = [msg]"
    and i: "invokeCalls tools (cm_ToolCalls (choice_Message choice0)) msg0 p = (Inr msg, params0)"
    by (rule choiceToResponse_single)
  from m0 c have "\<forall>text. TextPart text \<notin> set (msg_Parts msg0)"
    by (auto simp: choiceMessage_def Let_def split: if_splits sum.splits)
  with invokeCalls_keeps_parts [OF i] m
  show "\<exists>msg. res_Messages res0 = [msg] \<and> (\<forall>text. TextPart text \<notin> set (msg_Parts msg))"
    by simp
qed

theorem text_roundtrip_witness:
  "toContentParts stdExternal (userMessage [TextPart ''Hello'']) = [TextContentPart ''Hello'']
   \<and> choiceToResponse stdExternal helloParams testTools
        [\<lparr>choice_Message = plainMessage ''Hello'', choice_FinishReason = ''stop''\<rparr>] =
      (Inr \<lparr>res_Messages =
         [\<lparr>msg_Role = RoleAssistant, msg_Parts = [TextPart ''Hello''], msg_Status = StatusCompleted,
           msg_Metadata = [''finish_reason'' \<mapsto> ''stop''], msg_ToolCalls = []\<rparr>]\<rparr>, helloParams)"
  using text_roundtrip [of stdExternal "''Hello''" helloParams testTools "''stop''"]
  by (simp add: toContentParts_def userMessage_def choiceToResponse_def choiceMessage_def plainMessage_def)

theorem text_roundtrip_empty_counterexample:
  "choiceToResponse stdExternal helloParams testTools
        [\<lparr>choice_Message = plainMessage '''', choice_FinishReason = ''stop''\<rparr>] =
      (Inr \<lparr>res_Messages =
         [\<lparr>msg_Role = RoleAssistant, msg_Parts = [], msg_Status = StatusCompleted,
           msg_Metadata = [''finish_reason'' \<mapsto> ''stop''], msg_ToolCalls = []\<rparr>]\<rparr>, helloParams)"
  by (simp add: choiceToResponse_def choiceMessage_def plainMessage_def)

text \<open>The sample request passes validation and translation.\<close>

lemma hello_translated:
  "\<exists>params. toChatCompletionParams stdExternal helloRequest opt = Inr params"
  by (simp add: toChatCompletionParams_def helloRequest_def isValidModel_iff QwenTurbo_def
      toTools_def testTools_def testTool_def anotherTool_def Let_def)

subsection \<open>Inline audio\<close>

text \<open>
  Claim C7. As amended: a Data part of a user message whose MIME type classifies as audio
  becomes an inline-audio part whose data is \<^verbatim>\<open>data:;base64,\<close> followed by the base64
  encoding of the bytes, with the format derived from the MIME type. The MIME type itself
  is not in the data URL (the image branch does write it).
\<close>

theorem audio_data_part:
  assumes "mimeType ext mime = ''audio''"
  shows "toContentParts ext (userMessage (before @ DataPart name bytes mime # after)) =
           toContentParts ext (userMessage before) @
           InputAudioContentPart (''data:;base64,'' @ base64Encode ext bytes) (mimeFormat ext mime) #
           toContentParts ext (userMessage after)"
  using assms by (simp add: toContentParts_def userMessage_def)

theorem audio_data_part_witness:
  "mimeType stdExternal ''audio/wav'' = ''audio''
   \<and> toContentParts stdExternal
        (userMessage ([TextPart ''listen''] @ DataPart ''a.wav'' [1, 2, 3] ''audio/wav'' # [])) =
      [TextContentPart ''listen'', InputAudioContentPart ''data:;base64,AQID'' ''wav'']"
proof -
  have h: "mimeType stdExternal ''audio/wav'' = ''audio''"
    by (simp add: stdExternal_def mimeTypeOf_def)
  have t: "toContentParts stdExternal (userMessage [TextPart ''listen'']) = [TextContentPart ''listen'']"
    by (simp add: toContentParts_def userMessage_def)
  have n: "toContentParts stdExternal (userMessage []) = []"
    by (simp add: toContentParts_def userMessage_def)
  have e: "base64Encode stdExternal [1, 2, 3] = ''AQID''"
    by (simp add: stdExternal_def encodeStd_def)
  have f: "mimeFormat stdExternal ''audio/wav'' = ''wav''"
    by (simp add: stdExternal_def mimeFormatOf_def)
  show ?thesis
    using h audio_data_part [OF h, of "[TextPart ''listen'']" "''a.wav''" "[1, 2, 3]" "[]"]
    by (simp only: t n e f append_Nil append_Cons simp_thms)
qed

theorem audio_data_url_counterexample:
  "toContentParts stdExternal (userMessage [DataPart ''a.wav'' [1, 2, 3] ''audio/wav'']) =
     [InputAudioContentPart ''data:;base64,AQID'' ''wav'']
   \<and> \<not> prefix (''data:'' @ ''audio/wav'' @ '';base64,'') ''data:;base64,AQID''"
  by (simp add: toContentParts_def userMessage_def stdExternal_def mimeTypeOf_def mimeFormatOf_def
        encodeStd_def)

subsection \<open>Entry guards\<close>

lemma New_exhausted:
  "opt_MaxIterations opts < 1 \<Longrightarrow>
   New ext client wire params tools opts = (Inl ErrTooManyIterations, wire)"
  by (subst New.simps) simp

lemma NewStreaming_exhausted:
  "opt_MaxIterations opts < 1 \<Longrightarrow>
   NewStreaming ext client accumulate wire params tools opts = (Inl ErrTooManyIterations, wire)"
  by (subst NewStreaming.simps) simp

text \<open>
  Claim C5. As amended: when the configured \<^verbatim>\<open>MaxIterations\<close> is below 1, \<^verbatim>\<open>NewStream\<close>
  fails with \<^verbatim>\<open>ErrTooManyIterations\<close>, and \<^verbatim>\<open>Generate\<close> fails with \<^verbatim>\<open>ErrTooManyIterations\<close> when
  the request translates and with the translation error otherwise (it translates before
  \<^verbatim>\<open>New\<close> tests the budget). In every case the wire is left as it was.
\<close>

theorem exhausted_budget_rejected:
  assumes "opt_MaxIterations (applyOptions opts) < 1"
  shows "NewStream ext streamClient accumulate wire' req opts = (Inl ErrTooManyIterations, wire')
       \<and> Generate ext client wire req opts =
           (Inl (case toChatCompletionParams ext req (applyOptions opts) of
                   Inl err \<Rightarrow> err
                 | Inr params \<Rightarrow> ErrTooManyIterations), wire)"
  using assms by (simp add: NewStream_def Generate_def Let_def New_exhausted split: sum.splits)

theorem exhausted_budget_rejected_witness:
  "opt_MaxIterations (applyOptions [MaxIterations 0]) < 1
   \<and> NewStream stdExternal brokenStreamClient textAccumulator freshWire helloRequest [MaxIterations 0] =
       (Inl ErrTooManyIterations, freshWire)
   \<and> Generate stdExternal loopingClient freshWire helloRequest [MaxIterations 0] =
       (Inl ErrTooManyIterations, freshWire)"
proof -
  have h: "opt_MaxIterations (applyOptions [MaxIterations 0]) < 1"
    by (simp add: applyOptions_def MaxIterations_def)
  obtain params where t: "toChatCompletionParams stdExternal helloRequest (applyOptions [MaxIterations 0]) = Inr params"
    using hello_translated by blast
  show ?thesis
    using h exhausted_budget_rejected [OF h, of stdExternal brokenStreamClient textAccumulator freshWire
        helloRequest loopingClient freshWire]
    by (simp add: t)
qed

theorem exhausted_budget_invalid_model_counterexample:
  "opt_MaxIterations (applyOptions [MaxIterations 0]) < 1
   \<and> Generate stdExternal loopingClient freshWire invalidModelRequest [MaxIterations 0] =
       (Inl ErrInvalidModel, freshWire)"
  by (simp add: applyOptions_def MaxIterations_def Generate_def toChatCompletionParams_def
        invalidModelRequest_def isValidModel_iff)

subsection \<open>A completion without choices\<close>

lemma New_no_choices:
  assumes "1 \<le> opt_MaxIterations opts" and "client (wire_state wire) params = (Inr [], c)"
  shows "New ext client wire params tools opts =
           (Inr \<lparr>res_Messages = []\<rparr>, \<lparr>wire_state = c, wire_sent = wire_sent wire @ [params]\<rparr>)"
  using assms
  by (subst New.simps) (simp add: CompletionsNew_def choiceToResponse_def)

text \<open>
  Claim C2. The claim does not hold of the code: for a completion with no choices
  \<^verbatim>\<open>Generate\<close> returns a response with no messages and no error. \<^verbatim>\<open>ErrEmptyResponse\<close> is
  declared and documented for this case, and no path returns it.
\<close>

theorem no_choices_returns_empty_response:
  "fst (Generate stdExternal noChoicesClient freshWire helloRequest []) = Inr \<lparr>res_Messages = []\<rparr>"
proof -
  obtain params where t: "toChatCompletionParams stdExternal helloRequest (applyOptions []) = Inr params"
    using hello_translated by blast
  have "1 \<le> opt_MaxIterations (applyOptions [])"
    by (simp add: applyOptions_def defaultOptions_def)
  then have "New stdExternal noChoicesClient freshWire params (req_Tools helloRequest) (applyOptions []) =
       (Inr \<lparr>res_Messages = []\<rparr>, \<lparr>wire_state = Suc 0, wire_sent = wire_sent freshWire @ [params]\<rparr>)"
    by (rule New_no_choices) (simp add: noChoicesClient_def freshWire_def)
  then show ?thesis
    by (simp add: Generate_def t)
qed

subsection \<open>Budget exhaustion\<close>

lemma invokeCalls_succeeds:
  "list_all (dispatches tools) calls \<Longrightarrow>
   \<exists>msg' params'. invokeCalls tools calls msg params = (Inr msg', params')
     \<and> length (msg_ToolCalls msg') = length (msg_ToolCalls msg) + length calls
     \<and> (if calls = [] then msg_Role msg' = msg_Role msg else msg_Role msg' = RoleTool)"
proof (induction calls arbitrary: msg params)
  case Nil
  then show ?case by simp
next
  case (Cons call calls)
  then obtain result where r: "toolCall tools (call_Name call) (call_Arguments call) = (result, None)"
    by (cases "toolCall tools (call_Name call) (call_Arguments call)") (simp add: dispatches_def)
  let ?msg = "msg\<lparr>msg_Role := RoleTool,
                 msg_ToolCalls := msg_ToolCalls msg @
                   [\<lparr>tc_ID = call_ID call, tc_Name = call_Name call,
                     tc_Arguments = call_Arguments call, tc_Result = result\<rparr>]\<rparr>"
  let ?params = "params\<lparr>par_Messages := par_Messages params @ [ToolMessage result (call_ID call)]\<rparr>"
  from Cons.prems have "list_all (dispatches tools) calls" by simp
  from Cons.IH [OF this, of ?msg ?params] obtain msg' params' where
    "invokeCalls tools calls ?msg ?params = (Inr msg', params')"
    "length (msg_ToolCalls msg') = length (msg_ToolCalls ?msg) + length calls"
    "if calls = [] then msg_Role msg' = msg_Role ?msg else msg_Role msg' = RoleTool"
    by blast
  then show ?case
    by (auto simp: r split: if_splits)
qed

lemma assembleChoices_asks:
  "list_all (\<lambda>choice. \<not> isl (choiceMessage ext choice)
                           \<and> list_all (dispatches tools) (cm_ToolCalls (choice_Message choice))) choices \<Longrightarrow>
   list_ex (\<lambda>msg. msg_Role msg = RoleTool \<and> length (msg_ToolCalls msg) \<noteq> 0) (res_Messages res)
     \<or> list_ex (\<lambda>choice. cm_ToolCalls (choice_Message choice) \<noteq> []) choices \<Longrightarrow>
   \<exists>res' params'. assembleChoices ext tools choices res params = (Inr res', params')
     \<and> list_ex (\<lambda>msg. msg_Role msg = RoleTool \<and> length (msg_ToolCalls msg) \<noteq> 0) (res_Messages res')"
proof (induction choices arbitrary: res params)
  case Nil
  then show ?case by simp
next
  case (Cons choice choices)
  let ?calls = "cm_ToolCalls (choice_Message choice)"
  let ?params = "if length ?calls > 0
                 then params\<lparr>par_Messages := par_Messages params @ [MessageToParam (choice_Message choice)]\<rparr>
                 else params"
  from Cons.prems(1) obtain msg where m: "choiceMessage ext choice = Inr msg"
    by (cases "choiceMessage ext choice") simp_all
  from Cons.prems(1) have "list_all (dispatches tools) ?calls" by simp
  from invokeCalls_succeeds [OF this, of msg ?params] obtain msg' params' where
    i: "invokeCalls tools ?calls msg ?params = (Inr msg', params')"
    and l: "length (msg_ToolCalls msg') = length (msg_ToolCalls msg) + length ?calls"
    and r: "if ?calls = [] then msg_Role msg' = msg_Role msg else msg_Role msg' = RoleTool"
    by blast
  let ?res = "res\<lparr>res_Messages := res_Messages res @ [msg']\<rparr>"
  from Cons.prems(1) have rest: "list_all (\<lambda>choice. \<not> isl (choiceMessage ext choice)
                           \<and> list_all (dispatches tools) (cm_ToolCalls (choice_Message choice))) choices"
    by simp
  have "list_ex (\<lambda>msg. msg_Role msg = RoleTool \<and> length (msg_ToolCalls msg) \<noteq> 0) (res_Messages ?res)
     \<or> list_ex (\<lambda>choice. cm_ToolCalls (choice_Message choice) \<noteq> []) choices"
    using Cons.prems(2) l r by (auto simp: list_ex_iff)
  from Cons.IH [OF rest this, of params'] show ?case
    using m i by (simp add: Let_def)
qed

lemma choiceToResponse_asks:
  assumes "asksForTools ext tools choices"
  shows "\<exists>res params'. choiceToResponse ext params tools choices = (Inr res, params')
     \<and> list_ex (\<lambda>msg. msg_Role msg = RoleTool \<and> length (msg_ToolCalls msg) \<noteq> 0) (res_Messages res)"
  unfolding choiceToResponse_def
  using assms by (intro assembleChoices_asks) (simp_all add: asksForTools_def)

lemma New_always_asked:
  assumes always: "\<forall>c params. \<exists>choices c'. client c params = (Inr choices, c') \<and> asksForTools ext tools choices"
  shows "nat (opt_MaxIterations opts) = n \<Longrightarrow>
         \<exists>wire'. New ext client wire params tools opts = (Inl ErrTooManyIterations, wire')
           \<and> length (wire_sent wire') = length (wire_sent wire) + n"
proof (induction n arbitrary: opts wire params)
  case 0
  then show ?case by (subst New.simps) simp
next
  case (Suc n)
  then have pos: "\<not> opt_MaxIterations opts < 1" by simp
  from always obtain choices c' where
    c: "client (wire_state wire) params = (Inr choices, c')" and a: "asksForTools ext tools choices"
    by blast
  from choiceToResponse_asks [OF a, of params] obtain res params' where
    r: "choiceToResponse ext params tools choices = (Inr res, params')"
    and t: "list_ex (\<lambda>msg. msg_Role msg = RoleTool \<and> length (msg_ToolCalls msg) \<noteq> 0) (res_Messages res)"
    by blast
  let ?wire = "\<lparr>wire_state = c', wire_sent = wire_sent wire @ [params]\<rparr>"
  let ?opts = "opts\<lparr>opt_MaxIterations := opt_MaxIterations opts - 1\<rparr>"
  have step: "New ext client wire params tools opts = New ext client ?wire params' tools ?opts"
    using pos c r t by (subst New.simps) (simp add: CompletionsNew_def)
  from Suc.prems have "nat (opt_MaxIterations ?opts) = n" by simp
  from Suc.IH [OF this, of ?wire params'] show ?case
    by (simp add: step)
qed

text \<open>
  Claim C1. As amended: when the vendor answers every request with choices that ask for
  tools, and every tool call is dispatched successfully, \<^verbatim>\<open>New\<close> with \<^verbatim>\<open>MaxIterations = 2\<close>
  performs exactly two request cycles and then fails with \<^verbatim>\<open>ErrTooManyIterations\<close>: the guard
  at the third entry rejects the call, and the last assembled response is not returned.
  \<open>New\<close> is a total function; it terminates for every budget.
\<close>

theorem budget_of_two_exhausted:
  assumes "\<forall>c params. \<exists>choices c'. client c params = (Inr choices, c') \<and> asksForTools ext tools choices"
      and "opt_MaxIterations opts = 2"
  shows "\<exists>wire'. New ext client wire params tools opts = (Inl ErrTooManyIterations, wire')
           \<and> length (wire_sent wire') = length (wire_sent wire) + 2"
  using New_always_asked [OF assms(1), of opts 2 wire params] assms(2) by simp

lemma looping_asks: "asksForTools stdExternal testTools [toolCallChoice]"
  by (simp add: asksForTools_def toolCallChoice_def plainMessage_def choiceMessage_def
        dispatches_def callOf_def testTools_def testTool_def)

lemma looping_always:
  "\<forall>c params. \<exists>choices c'. loopingClient c params = (Inr choices, c') \<and> asksForTools stdExternal testTools choices"
  by (simp add: loopingClient_def looping_asks)

theorem budget_of_two_exhausted_witness:
  "opt_MaxIterations (MaxIterations 2 defaultOptions) = 2
   \<and> fst (New stdExternal loopingClient freshWire helloParams testTools (MaxIterations 2 defaultOptions))
       = Inl ErrTooManyIterations
   \<and> length (wire_sent (snd (New stdExternal loopingClient freshWire helloParams testTools
               (MaxIterations 2 defaultOptions)))) = 2"
proof -
  have h: "opt_MaxIterations (MaxIterations 2 defaultOptions) = 2"
    by (simp add: MaxIterations_def)
  show ?thesis
    using h budget_of_two_exhausted [OF looping_always h, of freshWire helloParams]
    by (auto simp: freshWire_def)
qed

theorem budget_of_two_returns_error_counterexample:
  "fst (Generate stdExternal loopingClient freshWire helloRequest [MaxIterations 2])
       = Inl ErrTooManyIterations
   \<and> length (wire_sent (snd (Generate stdExternal loopingClient freshWire helloRequest [MaxIterations 2]))) = 2"
proof -
  obtain params where t: "toChatCompletionParams stdExternal helloRequest (applyOptions [MaxIterations 2]) = Inr params"
    using hello_translated by blast
  have "nat (opt_MaxIterations (applyOptions [MaxIterations 2])) = 2"
    by (simp add: applyOptions_def MaxIterations_def)
  moreover have "req_Tools helloRequest = testTools"
    by (simp add: helloRequest_def)
  ultimately show ?thesis
    using New_always_asked [OF looping_always, of "applyOptions [MaxIterations 2]" 2 freshWire params]
    by (auto simp: Generate_def t freshWire_def)
qed

subsection \<open>Accumulation of the wire messages\<close>

lemma extends_refl: "extends params params"
  by (simp add: extends_def)

lemma extends_trans: "extends p q \<Longrightarrow> extends q r \<Longrightarrow> extends p r"
  unfolding extends_def by (rule prefix_order.trans)

lemma extends_append: "extends params (params\<lparr>par_Messages := par_Messages params @ extra\<rparr>)"
  by (simp add: extends_def)

lemma invokeCalls_extends: "extends params (snd (invokeCalls tools calls msg params))"
proof (induction calls arbitrary: msg params)
  case Nil
  show ?case by (simp add: extends_refl)
next
  case (Cons call calls)
  show ?case
  proof (cases "toolCall tools (call_Name call) (call_Arguments call)")
    case (Pair result err)
    show ?thesis
    proof (cases err)
      case None
      with Pair show ?thesis
        using extends_trans [OF extends_append Cons.IH] by simp
    next
      case (Some e)
      with Pair show ?thesis by (simp add: extends_refl)
    qed
  qed
qed

lemma assembleChoices_extends:
  "extends params (snd (assembleChoices ext tools choices res params))"
proof (induction choices arbitrary: res params)
  case Nil
  show ?case by (simp add: extends_refl)
next
  case (Cons choice choices)
  let ?calls = "cm_ToolCalls (choice_Message choice)"
  let ?params = "if length ?calls > 0
                 then params\<lparr>par_Messages := par_Messages params @ [MessageToParam (choice_Message choice)]\<rparr>
                 else params"
  have announced: "extends params ?params"
    by (simp add: extends_refl extends_append)
  show ?case
  proof (cases "choiceMessage ext choice")
    case (Inl err)
    then show ?thesis by (simp add: extends_refl)
  next
    case (Inr msg)
    have invoked: "extends params (snd (invokeCalls tools ?calls msg ?params))"
      using extends_trans [OF announced invokeCalls_extends] .
    show ?thesis
    proof (cases "invokeCalls tools ?calls msg ?params")
      case (Pair r params')
      with invoked have e: "extends params params'" by simp
      show ?thesis
      proof (cases r)
        case (Inl err)
        with Pair Inr e show ?thesis by (simp add: Let_def)
      next
        case (Inr msg')
        with Pair \<open>choiceMessage ext choice = Inr msg\<close> show ?thesis
          using extends_trans [OF e Cons.IH] by (simp add: Let_def)
      qed
    qed
  qed
qed

lemma choiceToResponse_extends:
  "extends params (snd (choiceToResponse ext params tools choices))"
  by (simp add: choiceToResponse_def assembleChoices_extends)

lemma successively_extends_Cons:
  "successively extends new \<Longrightarrow> list_all (extends params') new \<Longrightarrow> extends params params' \<Longrightarrow>
   successively extends (params # new)"
  by (cases new) (auto intro: extends_trans)

lemma list_all_extends_trans:
  "list_all (extends params') new \<Longrightarrow> extends params params' \<Longrightarrow> list_all (extends params) new"
  by (auto simp: list_all_iff intro: extends_trans)

lemma New_requests:
  "\<exists>new. wire_sent (snd (New ext client wire params tools opts)) = wire_sent wire @ new
     \<and> successively extends new \<and> list_all (extends params) new"
proof (induction ext client wire params tools opts rule: New.induct)
  case (1 ext client wire params tools opts)
  show ?case
  proof (cases "opt_MaxIterations opts < 1")
    case True
    then show ?thesis by (subst New.simps) simp
  next
    case budget: False
    obtain r wire1 where sub: "CompletionsNew client wire params = (r, wire1)"
      by (cases "CompletionsNew client wire params")
    then have w1: "wire_sent wire1 = wire_sent wire @ [params]"
      by (auto simp: CompletionsNew_def split: prod.splits)
    show ?thesis
    proof (cases r)
      case (Inl err)
      with budget sub w1 show ?thesis
        by (subst New.simps) (simp add: extends_refl)
    next
      case choices: (Inr choices)
      obtain y params' where asm: "choiceToResponse ext params tools choices = (y, params')"
        by (cases "choiceToResponse ext params tools choices")
      have grown: "extends params params'"
        using choiceToResponse_extends [of params ext tools choices] asm by simp
      show ?thesis
      proof (cases y)
        case (Inl err)
        with budget sub w1 choices asm show ?thesis
          by (subst New.simps) (simp add: extends_refl)
      next
        case res: (Inr res)
        show ?thesis
        proof (cases "list_ex (\<lambda>msg. msg_Role msg = RoleTool \<and> length (msg_ToolCalls msg) \<noteq> 0)
                         (res_Messages res)")
          case False
          with budget sub w1 choices asm res show ?thesis
            by (subst New.simps) (simp add: extends_refl)
        next
          case True
          let ?opts = "opts\<lparr>opt_MaxIterations := opt_MaxIterations opts - 1\<rparr>"
          from "1.IH" [OF budget sub [symmetric] choices asm [symmetric] res True]
          obtain new where
            n: "wire_sent (snd (New ext client wire1 params' tools ?opts)) = wire_sent wire1 @ new"
            and s: "successively extends new" and a: "list_all (extends params') new"
            by blast
          have step: "New ext client wire params tools opts = New ext client wire1 params' tools ?opts"
            using budget sub choices asm res True by (subst New.simps) simp
          have "wire_sent (snd (New ext client wire params tools opts)) = wire_sent wire @ (params # new)"
            by (simp add: step n w1)
          moreover have "successively extends (params # new)"
            using successively_extends_Cons [OF s a grown] .
          moreover have "list_all (extends params) (params # new)"
            using list_all_extends_trans [OF a grown] by (simp add: extends_refl)
          ultimately show ?thesis by blast
        qed
      qed
    qed
  qed
qed

lemma streaming_requests:
  "\<exists>new. wire_sent (snd (NewStreaming ext client accumulate wire params tools opts)) =
            wire_sent wire @ new \<and> list_all (extends params) new"
  "\<exists>new. wire_sent (snd (relayTools ext client accumulate wire params tools opts msgs sent)) =
            wire_sent wire @ new \<and> list_all (extends params) new"
proof (induction ext client accumulate wire params tools opts
         and ext client accumulate wire params tools opts msgs sent
       rule: NewStreaming_relayTools.induct)
  case (1 ext client accumulate wire params tools opts)
  show ?case
  proof (cases "opt_MaxIterations opts < 1")
    case True
    then show ?thesis by (subst NewStreaming.simps) simp
  next
    case budget: False
    obtain chunks streamErr wire1 where
      opened: "CompletionsNewStreaming client wire params = ((chunks, streamErr), wire1)"
      by (cases "CompletionsNewStreaming client wire params") auto
    then have w1: "wire_sent wire1 = wire_sent wire @ [params]"
      by (auto simp: CompletionsNewStreaming_def split: prod.splits)
    obtain forwarded failure where fwd: "forwardChunks tools chunks [] = (forwarded, failure)"
      by (cases "forwardChunks tools chunks []")
    obtain y params' where asm: "choiceToResponse ext params tools (accumulate chunks) = (y, params')"
      by (cases "choiceToResponse ext params tools (accumulate chunks)")
    have grown: "extends params params'"
      using choiceToResponse_extends [of params ext tools "accumulate chunks"] asm by simp
    show ?thesis
    proof (cases failure)
      case (Some err)
      with budget opened w1 fwd show ?thesis
        by (subst NewStreaming.simps) (simp add: extends_refl)
    next
      case None
      show ?thesis
      proof (cases y)
        case (Inl err)
        with budget opened w1 fwd None asm show ?thesis
          by (subst NewStreaming.simps) (simp add: extends_refl)
      next
        case (Inr lastResponse)
        from "1.IH" [OF budget opened [symmetric] refl fwd [symmetric] None asm [symmetric] Inr]
        obtain new where
          n: "wire_sent (snd (relayTools ext client accumulate wire1 params' tools opts
                 (res_Messages lastResponse) (forwarded @ [lastResponse]))) = wire_sent wire1 @ new"
          and a: "list_all (extends params') new"
          by blast
        have "wire_sent (snd (NewStreaming ext client accumulate wire params tools opts)) =
                wire_sent wire @ (params # new)"
          using budget opened fwd None asm Inr n w1
          by (subst NewStreaming.simps) (auto split: prod.splits)
        moreover have "list_all (extends params) (params # new)"
          using list_all_extends_trans [OF a grown] by (simp add: extends_refl)
        ultimately show ?thesis by blast
      qed
    qed
  qed
next
  case (2 ext client accumulate wire params tools opts sent)
  show ?case by simp
next
  case (3 ext client accumulate wire params tools opts msg msgs sent)
  show ?case
  proof (cases "msg_Role msg = RoleTool \<and> length (msg_ToolCalls msg) \<noteq> 0")
    case False
    then have step: "relayTools ext client accumulate wire params tools opts (msg # msgs) sent =
        relayTools ext client accumulate wire params tools opts msgs sent"
      by (simp only: relayTools.simps if_False)
    from "3.IH"(3) [OF False] show ?thesis by (simp only: step)
  next
    case True
    let ?opts = "opts\<lparr>opt_MaxIterations := opt_MaxIterations opts - 1\<rparr>"
    obtain x wire1 where nested: "NewStreaming ext client accumulate wire params tools ?opts = (x, wire1)"
      by (cases "NewStreaming ext client accumulate wire params tools ?opts")
    from "3.IH"(1) [OF True] nested obtain new1 where
      n1: "wire_sent wire1 = wire_sent wire @ new1" and a1: "list_all (extends params) new1"
      by auto
    have step: "relayTools ext client accumulate wire params tools opts (msg # msgs) sent =
        (case x of
           Inl err \<Rightarrow> (\<lparr>st_items = sent, st_err = Some err\<rparr>, wire1)
         | Inr toolStream \<Rightarrow>
             (case st_err toolStream of
                Some err \<Rightarrow> (\<lparr>st_items = sent @ st_items toolStream, st_err = Some err\<rparr>, wire1)
              | None \<Rightarrow> relayTools ext client accumulate wire1 params tools ?opts msgs
                         (sent @ st_items toolStream)))"
      using True by (simp add: nested)
    show ?thesis
    proof (cases x)
      case (Inl err)
      with n1 a1 show ?thesis unfolding step by auto
    next
      case (Inr toolStream)
      show ?thesis
      proof (cases "st_err toolStream")
        case (Some err)
        with Inr n1 a1 show ?thesis unfolding step by auto
      next
        case None
        from "3.IH"(2) [OF True nested [symmetric] Inr None] obtain new2 where
          n2: "wire_sent (snd (relayTools ext client accumulate wire1 params tools ?opts msgs
                  (sent @ st_items toolStream))) = wire_sent wire1 @ new2"
          and a2: "list_all (extends params) new2"
          by blast
        have "wire_sent (snd (relayTools ext client accumulate wire params tools opts (msg # msgs) sent)) =
                wire_sent wire @ (new1 @ new2)"
          unfolding step using Inr None n1 n2 by simp
        moreover have "list_all (extends params) (new1 @ new2)"
          using a1 a2 by simp
        ultimately show ?thesis by blast
      qed
    qed
  qed
qed

text \<open>
  What does hold of the message list. An assembly step leaves in \<^verbatim>\<open>params\<close> a list of which
  the previous list is a prefix, whether it succeeds or fails. The requests that one run
  of \<^verbatim>\<open>New\<close> submits form a chain in which every request extends the one before it,
  starting from the parameters of the call. Every request opened during one run of
  \<^verbatim>\<open>NewStreaming\<close>, nested streams included, extends the parameters the run started with.
\<close>

lemma wire_messages_grow_per_run:
  "extends params (snd (choiceToResponse ext params tools choices))
   \<and> (\<exists>new. wire_sent (snd (New ext client wire params tools opts)) = wire_sent wire @ new
         \<and> successively extends new \<and> list_all (extends params) new)
   \<and> (\<exists>new. wire_sent (snd (NewStreaming ext streamClient accumulate wire' params tools opts)) =
                wire_sent wire' @ new
         \<and> list_all (extends params) new)"
  using choiceToResponse_extends New_requests streaming_requests(1) by blast

text \<open>The requests of the forking vendor, in the order in which they are opened.\<close>

lemma forking_requests:
  "wire_sent (snd (NewStreaming stdExternal forkingStreamClient wholeChunkAccumulator freshWire
                     helloParams testTools defaultOptions)) =
     [helloParams,
      helloParams\<lparr>par_Messages :=
        [UserMessage [TextContentPart ''Hello''],
         MessageToParam (choice_Message (deltaChoice (callChunkChoice (callOf ''call_1'' ''test_tool'')))),
         ToolMessage ''test result'' ''call_1'',
         MessageToParam (choice_Message (deltaChoice (callChunkChoice (callOf ''call_2'' ''another_tool'')))),
         ToolMessage ''another result'' ''call_2'']\<rparr>,
      helloParams\<lparr>par_Messages :=
        [UserMessage [TextContentPart ''Hello''],
         MessageToParam (choice_Message (deltaChoice (callChunkChoice (callOf ''call_1'' ''test_tool'')))),
         ToolMessage ''test result'' ''call_1'',
         MessageToParam (choice_Message (deltaChoice (callChunkChoice (callOf ''call_2'' ''another_tool'')))),
         ToolMessage ''another result'' ''call_2'',
         MessageToParam (choice_Message (deltaChoice (callChunkChoice (callOf ''call_3'' ''test_tool'')))),
         ToolMessage ''test result'' ''call_3'']\<rparr>,
      helloParams\<lparr>par_Messages :=
        [UserMessage [TextContentPart ''Hello''],
         MessageToParam (choice_Message (deltaChoice (callChunkChoice (callOf ''call_1'' ''test_tool'')))),
         ToolMessage ''test result'' ''call_1'',
         MessageToParam (choice_Message (deltaChoice (callChunkChoice (callOf ''call_2'' ''another_tool'')))),
         ToolMessage ''another result'' ''call_2'']\<rparr>]"
  by (simp add: NewStreaming.simps defaultOptions_def CompletionsNewStreaming_def
        forkingStreamClient_def freshWire_def helloParams_def wholeChunkAccumulator_def
        textAccumulator_def deltaChoice_def callChunkChoice_def callOf_def textChunk_def
        chunkChoiceToResponse_def chunkMessage_def choiceToResponse_def choiceMessage_def
        plainMessage_def testTools_def testTool_def anotherTool_def Let_def)

text \<open>
  Claim C4. The claim does not hold of the stream pipeline. \<^verbatim>\<open>NewStreaming\<close> hands \<^verbatim>\<open>params\<close>
  to each nested stream by value, and the loop over the messages of the final response
  goes on after a nested stream has been relayed instead of returning as \<^verbatim>\<open>New\<close> does. When
  the final response has two tool messages, the second nested stream starts again from
  the parent's list: the requests carry 1, 5, 7 and 5 messages, and the fourth lacks the
  announcement and the tool result that the third carried.
\<close>

theorem stream_requests_not_a_chain:
  "map (\<lambda>params. length (par_Messages params))
     (wire_sent (snd (NewStreaming stdExternal forkingStreamClient wholeChunkAccumulator freshWire
                        helloParams testTools defaultOptions))) = [1, 5, 7, 5]
   \<and> \<not> successively extends
         (wire_sent (snd (NewStreaming stdExternal forkingStreamClient wholeChunkAccumulator freshWire
                            helloParams testTools defaultOptions)))"
  unfolding forking_requests by (simp add: extends_def helloParams_def)

subsection \<open>Errors of the wire stream\<close>

text \<open>
  No result of \<^verbatim>\<open>NewStreaming\<close> depends on the error of a wire stream: removing the error of
  every stream changes nothing.
\<close>

lemma opened_withoutError:
  "CompletionsNewStreaming client wire params = ((chunks, streamErr), wire1) \<Longrightarrow>
   CompletionsNewStreaming (withoutError client) wire params = ((chunks, None), wire1)"
  by (auto simp: CompletionsNewStreaming_def withoutError_def split: prod.splits)

lemma stream_error_never_read:
  "NewStreaming ext client accumulate wire params tools opts =
   NewStreaming ext (withoutError client) accumulate wire params tools opts"
  "relayTools ext client accumulate wire params tools opts msgs sent =
   relayTools ext (withoutError client) accumulate wire params tools opts msgs sent"
proof (induction ext client accumulate wire params tools opts
         and ext client accumulate wire params tools opts msgs sent
       rule: NewStreaming_relayTools.induct)
  case (1 ext client accumulate wire params tools opts)
  show ?case
  proof (cases "opt_MaxIterations opts < 1")
    case True
    then show ?thesis by (simp add: NewStreaming_exhausted)
  next
    case budget: False
    obtain chunks streamErr wire1 where
      opened: "CompletionsNewStreaming client wire params = ((chunks, streamErr), wire1)"
      by (cases "CompletionsNewStreaming client wire params") auto
    note opened' = opened_withoutError [OF opened]
    obtain forwarded failure where fwd: "forwardChunks tools chunks [] = (forwarded, failure)"
      by (cases "forwardChunks tools chunks []")
    obtain y params' where asm: "choiceToResponse ext params tools (accumulate chunks) = (y, params')"
      by (cases "choiceToResponse ext params tools (accumulate chunks)")
    show ?thesis
    proof (cases failure)
      case (Some err)
      with budget opened opened' fwd show ?thesis
        by (subst NewStreaming.simps, subst NewStreaming.simps) simp
    next
      case None
      show ?thesis
      proof (cases y)
        case (Inl err)
        with budget opened opened' fwd None asm show ?thesis
          by (subst NewStreaming.simps, subst NewStreaming.simps) simp
      next
        case (Inr lastResponse)
        note ih = "1.IH" [OF budget opened [symmetric] refl fwd [symmetric] None asm [symmetric] Inr]
        show ?thesis
          using budget opened opened' fwd None asm Inr ih
          by (subst NewStreaming.simps, subst NewStreaming.simps) simp
      qed
    qed
  qed
next
  case (2 ext client accumulate wire params tools opts sent)
  show ?case by simp
next
  case (3 ext client accumulate wire params tools opts msg msgs sent)
  show ?case
  proof (cases "msg_Role msg = RoleTool \<and> length (msg_ToolCalls msg) \<noteq> 0")
    case False
    from "3.IH"(3) [OF False] False show ?thesis by auto
  next
    case True
    let ?opts = "opts\<lparr>opt_MaxIterations := opt_MaxIterations opts - 1\<rparr>"
    obtain x wire1 where nested: "NewStreaming ext client accumulate wire params tools ?opts = (x, wire1)"
      by (cases "NewStreaming ext client accumulate wire params tools ?opts")
    from "3.IH"(1) [OF True] nested
    have nested': "NewStreaming ext (withoutError client) accumulate wire params tools ?opts = (x, wire1)"
      by simp
    show ?thesis
    proof (cases x)
      case (Inl err)
      with True nested nested' show ?thesis by auto
    next
      case (Inr toolStream)
      show ?thesis
      proof (cases "st_err toolStream")
        case (Some err)
        with True nested nested' Inr show ?thesis by auto
      next
        case None
        from "3.IH"(2) [OF True nested [symmetric] Inr None] True nested nested' Inr None
        show ?thesis by auto
      qed
    qed
  qed
qed

text \<open>
  Claim C3. The claim does not hold of the code for transport errors. The background task
  leaves its first loop when \<^verbatim>\<open>stream.Next()\<close> is false and never reads \<^verbatim>\<open>stream.Err()\<close>: after
  a chunk and a broken connection it still assembles and sends a final, completed
  response, and the output sequence ends without an error.
\<close>

theorem transport_error_swallowed:
  "snd (fst (brokenStreamClient 0 helloParams)) = Some (ErrorsNew ''unexpected EOF'')
   \<and> fst (NewStreaming stdExternal brokenStreamClient textAccumulator freshWire helloParams testTools
          defaultOptions) =
     Inr \<lparr>st_items =
            [\<lparr>res_Messages =
                [\<lparr>msg_Role = RoleAssistant, msg_Parts = [TextPart ''Hel''],
                  msg_Status = StatusIncomplete, msg_Metadata = Map.empty, msg_ToolCalls = []\<rparr>]\<rparr>,
             \<lparr>res_Messages =
                [\<lparr>msg_Role = RoleAssistant, msg_Parts = [TextPart ''Hel''],
                  msg_Status = StatusCompleted, msg_Metadata = Map.empty, msg_ToolCalls = []\<rparr>]\<rparr>],
          st_err = None\<rparr>"
proof -
  have budget: "\<not> opt_MaxIterations defaultOptions < 1"
    by (simp add: defaultOptions_def)
  have opened: "CompletionsNewStreaming brokenStreamClient freshWire helloParams =
      (([textChunk ''Hel''], Some (ErrorsNew ''unexpected EOF'')),
       \<lparr>wire_state = Suc 0, wire_sent = [helloParams]\<rparr>)"
    by (simp add: CompletionsNewStreaming_def brokenStreamClient_def freshWire_def)
  have forwarded: "forwardChunks testTools [textChunk ''Hel''] [] =
      ([\<lparr>res_Messages =
                [\<lparr>msg_Role = RoleAssistant, msg_Parts = [TextPart ''Hel''],
                  msg_Status = StatusIncomplete, msg_Metadata = Map.empty, msg_ToolCalls = []\<rparr>]\<rparr>], None)"
    by (simp add: chunkChoiceToResponse_def chunkMessage_def textChunk_def)
  have assembled: "choiceToResponse stdExternal helloParams testTools (textAccumulator [textChunk ''Hel'']) =
      (Inr \<lparr>res_Messages =
                [\<lparr>msg_Role = RoleAssistant, msg_Parts = [TextPart ''Hel''],
                  msg_Status = StatusCompleted, msg_Metadata = Map.empty, msg_ToolCalls = []\<rparr>]\<rparr>,
       helloParams)"
    by (simp add: choiceToResponse_def choiceMessage_def textAccumulator_def textChunk_def
          plainMessage_def)
  show ?thesis
    by (subst NewStreaming.simps)
       (simp add: budget opened forwarded assembled brokenStreamClient_def del: forwardChunks.simps)
qed

end
